theory Spec2Isabelle
  imports Complex_Main "HOL-Library.Word"
begin

section \<open>The KRA tabs widget: data model\<close>

text \<open>
  The widget of \<^verbatim>\<open>kra_tabs.js\<close> (the variant driven through the host record's
  nested-object graph) edits a record that owns an ordered list of KRA rows, each of
  which owns an ordered list of KPI rows.

  A field of a row's \<^verbatim>\<open>data\<close> mapping is an option: \<open>None\<close> stands for a field that
  is not set (JavaScript \<^verbatim>\<open>undefined\<close> or \<^verbatim>\<open>false\<close>). Numbers of float fields are
  idealised as reals, the integer field \<^verbatim>\<open>sequence\<close> is an \<open>int\<close>. A many2one value
  is the array \<^verbatim>\<open>[id, display_name]\<close> or \<^verbatim>\<open>false\<close>; the widget reads index 0 only, so
  the model keeps the id. Text that the widget only copies or compares is a \<open>string\<close>;
  the text typed into the creation dialog, which is trimmed, is a list of UTF-16 code
  units.
\<close>

record kpi_fields =
  name :: "string option"
  description :: "string option"
  criteria :: "string option"
  weightage :: "real option"
  score :: "real option"
  is_selected :: "bool option"
  is_clone :: "bool option"
  template_kpi_id :: "nat option"
  target :: "string option"
  planning_remarks :: "string option"

text \<open>
  A KPI row is a record object: \<open>kpi_id\<close> is the identity of the object (the \<^verbatim>\<open>id\<close> every
  row exposes), \<open>isNew\<close> tells an unsaved row, \<open>kpi_data\<close> is its \<^verbatim>\<open>data\<close> mapping.
\<close>

record kpi_record =
  kpi_id :: nat
  isNew :: bool
  kpi_data :: kpi_fields

text \<open>
  Of a KRA row the widget reads the \<^verbatim>\<open>data\<close> mapping only: \<^verbatim>\<open>data.name\<close>,
  \<^verbatim>\<open>data.sequence\<close> and the rows \<^verbatim>\<open>data.kpi_ids.records\<close>.
\<close>

record kra_record =
  kra_name :: "string option"
  sequence :: "int option"
  kpi_ids :: "kpi_record list"

record widget_options =
  opt_mode :: "string option"

record field_info =
  fi_options :: "widget_options option"

text \<open>
  The host record: \<open>data r f\<close> is \<^verbatim>\<open>record.data[f]?.records\<close> (\<open>None\<close> when the field
  is absent), \<open>activeFields\<close> the field declarations of the view, \<open>next_id\<close> the counter
  from which the record store names the row objects it creates.
\<close>

record form_record =
  resModel :: string
  data :: "string \<rightharpoonup> kra_record list"
  activeFields :: "(string \<rightharpoonup> field_info) option"
  next_id :: nat

record kra_tabs_props =
  p_record :: form_record
  p_readonly :: bool
  p_name :: string
  p_options :: "widget_options option"

record kra_tabs_state =
  activeTabIndex :: int
  isDeleting :: bool
  showRestorePanel :: bool

datatype jsval = JBool bool | JNum real | JStr string

text \<open>
  What the widget does to its collaborators, in order: the Record Accessor calls that
  resolved, the lines written to the console, the dialogs opened.
\<close>

datatype event =
    Acc_record_update string kra_record
  | Acc_kra_update nat kpi_fields
  | Acc_kraList_delete nat
  | Acc_kpiList_delete nat nat
  | Acc_kpi_update nat string jsval
  | Console_error string
  | Dialog_add "string list"

record widget =
  props :: kra_tabs_props
  state :: kra_tabs_state
  trace :: "event list"

datatype acc_outcome = Resolves | Rejects

datatype error = Accessor_rejected

section \<open>Mode resolver\<close>

text \<open>\<^verbatim>\<open>o && o.mode\<close>: the mode of an options object, when both are truthy.\<close>

definition options_mode :: "widget_options option \<Rightarrow> string option" where
  "options_mode opts =
     (case opts of
        None \<Rightarrow> None
      | Some ob \<Rightarrow> (case opt_mode ob of
                     None \<Rightarrow> None
                   | Some m \<Rightarrow> if m = [] then None else Some m))"

text \<open>The options of \<^verbatim>\<open>record.activeFields[name]\<close>, when every step is truthy.\<close>

definition field_options :: "kra_tabs_props \<Rightarrow> widget_options option" where
  "field_options p =
     (case activeFields (p_record p) of
        None \<Rightarrow> None
      | Some af \<Rightarrow> (case af (p_name p) of
                     None \<Rightarrow> None
                   | Some fi \<Rightarrow> fi_options fi))"

definition mode :: "kra_tabs_props \<Rightarrow> string" where
  "mode p =
     (if resModel (p_record p) = ''appraisal.template'' then ''template''
      else case options_mode (p_options p) of
        Some m \<Rightarrow> m
      | None \<Rightarrow> (case options_mode (field_options p) of
                   Some m \<Rightarrow> m
                 | None \<Rightarrow> ''employee''))"

definition isTemplateMode :: "widget \<Rightarrow> bool" where
  "isTemplateMode w = (mode (props w) = ''template'')"

definition isEmployeeMode :: "widget \<Rightarrow> bool" where
  "isEmployeeMode w = (mode (props w) = ''employee'')"

definition isSupervisorMode :: "widget \<Rightarrow> bool" where
  "isSupervisorMode w = (mode (props w) = ''supervisor'')"

section \<open>Reading the collections\<close>

text \<open>\<^verbatim>\<open>xs[i]\<close> of JavaScript: \<^verbatim>\<open>undefined\<close> outside the array.\<close>

definition js_index :: "'a list \<Rightarrow> int \<Rightarrow> 'a option" where
  "js_index xs i = (if 0 \<le> i \<and> i < int (length xs) then Some (xs ! nat i) else None)"

definition records_of :: "form_record \<Rightarrow> string \<Rightarrow> kra_record list" where
  "records_of r f = (case data r f of Some rs \<Rightarrow> rs | None \<Rightarrow> [])"

definition kraRecords :: "widget \<Rightarrow> kra_record list" where
  "kraRecords w = records_of (p_record (props w)) (p_name (props w))"

definition hasKras :: "widget \<Rightarrow> bool" where
  "hasKras w = (length (kraRecords w) > 0)"

definition activeKRA :: "widget \<Rightarrow> kra_record option" where
  "activeKRA w = js_index (kraRecords w) (activeTabIndex (state w))"

definition activeKPIs :: "widget \<Rightarrow> kpi_record list" where
  "activeKPIs w = (case activeKRA w of Some kra \<Rightarrow> kpi_ids kra | None \<Rightarrow> [])"

text \<open>Truthiness of an optional boolean field, and \<^verbatim>\<open>x || 0\<close> on an optional number.\<close>

definition truthy :: "bool option \<Rightarrow> bool" where
  "truthy b = (b = Some True)"

definition or0 :: "'a::zero option \<Rightarrow> 'a" where
  "or0 x = (case x of Some v \<Rightarrow> v | None \<Rightarrow> 0)"

definition activeDeselectedKPIs :: "widget \<Rightarrow> kpi_record list" where
  "activeDeselectedKPIs w = filter (\<lambda>kpi. \<not> truthy (is_selected (kpi_data kpi))) (activeKPIs w)"

section \<open>Score aggregator\<close>

definition activeTotalScore :: "widget \<Rightarrow> real" where
  "activeTotalScore w =
     (if isTemplateMode w
      then foldl (\<lambda>sum kpi. sum + or0 (score (kpi_data kpi))) 0 (activeKPIs w)
      else foldl (\<lambda>sum kpi. sum + or0 (weightage (kpi_data kpi))) 0
             (filter (\<lambda>kpi. truthy (is_selected (kpi_data kpi))) (activeKPIs w)))"

section \<open>Record Accessor\<close>

text \<open>
  The Record Accessor is the host's record store, an external collaborator that the
  widget only calls; its code is not part of the widget. Its operations are modelled from
  the contract the specification gives for it: \<^verbatim>\<open>update(patch)\<close> creates or modifies
  nested rows, \<^verbatim>\<open>delete(row)\<close> removes a row, and a call that rejects changes nothing.
\<close>

text \<open>The function \<open>f\<close> applied to the element at index \<open>i\<close>, if there is one.\<close>

definition map_at :: "nat \<Rightarrow> ('a \<Rightarrow> 'a) \<Rightarrow> 'a list \<Rightarrow> 'a list" where
  "map_at i f xs = take i xs @ (case drop i xs of [] \<Rightarrow> [] | x # ys \<Rightarrow> f x # ys)"

text \<open>The function \<open>h\<close> applied to the rows of the field \<open>f\<close>, if the record has the field.\<close>

definition map_records ::
  "string \<Rightarrow> (kra_record list \<Rightarrow> kra_record list) \<Rightarrow> form_record \<Rightarrow> form_record" where
  "map_records f h r = r\<lparr>data := (data r)(f := map_option h (data r f))\<rparr>"

text \<open>
  Modelled from the spec: \<^verbatim>\<open>record.update({[f]: [[0, 0, vals]]})\<close> of the Record Accessor,
  which appends a new KRA row with the values \<open>vals\<close> to the field \<open>f\<close>.
\<close>

definition acc_create_kra :: "string \<Rightarrow> kra_record \<Rightarrow> form_record \<Rightarrow> form_record" where
  "acc_create_kra f vals r = r\<lparr>data := (data r)(f \<mapsto> records_of r f @ [vals])\<rparr>"

text \<open>
  Modelled from the spec: \<^verbatim>\<open>kra.update({kpi_ids: [[0, 0, vals]]})\<close> of the Record
  Accessor on the KRA at index \<open>i\<close> of the field \<open>f\<close>, which appends a new, unsaved KPI
  row object with the values \<open>vals\<close> and a fresh identity.
\<close>

definition acc_create_kpi :: "string \<Rightarrow> nat \<Rightarrow> kpi_fields \<Rightarrow> form_record \<Rightarrow> form_record" where
  "acc_create_kpi f i vals r =
     (map_records f
        (map_at i (\<lambda>kra. kra\<lparr>kpi_ids := kpi_ids kra @
           [\<lparr>kpi_id = next_id r, isNew = True, kpi_data = vals\<rparr>]\<rparr>)) r)
     \<lparr>next_id := Suc (next_id r)\<rparr>"

text \<open>
  Modelled from the spec: \<^verbatim>\<open>kraList.delete(kra)\<close> of the Record Accessor, for the KRA
  object found at index \<open>i\<close> of the field \<open>f\<close>: the element at that index is removed.
\<close>

definition acc_delete_kra :: "string \<Rightarrow> nat \<Rightarrow> form_record \<Rightarrow> form_record" where
  "acc_delete_kra f i r = map_records f (\<lambda>xs. take i xs @ drop (Suc i) xs) r"

text \<open>
  Modelled from the spec: \<^verbatim>\<open>kpiList.delete(kpiRecord)\<close> of the Record Accessor, on the
  KPI list of the KRA at index \<open>i\<close> of the field \<open>f\<close>: the row object with the identity
  \<open>kid\<close> is removed from that list.
\<close>

definition acc_delete_kpi :: "string \<Rightarrow> nat \<Rightarrow> nat \<Rightarrow> form_record \<Rightarrow> form_record" where
  "acc_delete_kpi f i kid r =
     map_records f
       (map_at i (\<lambda>kra. kra\<lparr>kpi_ids := filter (\<lambda>kpi. kpi_id kpi \<noteq> kid) (kpi_ids kra)\<rparr>)) r"

text \<open>
  Modelled from the spec: \<^verbatim>\<open>kpiRecord.update({[fld]: v})\<close> of the Record Accessor writes
  the one field \<open>fld\<close> of the row object's data; a value of another type than the field's,
  or an unknown field, writes nothing.
\<close>

definition kpi_write :: "string \<Rightarrow> jsval \<Rightarrow> kpi_fields \<Rightarrow> kpi_fields" where
  "kpi_write fld v d =
     (case v of
        JBool b \<Rightarrow>
          if fld = ''is_selected'' then d\<lparr>is_selected := Some b\<rparr>
          else if fld = ''is_clone'' then d\<lparr>is_clone := Some b\<rparr>
          else d
      | JNum x \<Rightarrow>
          if fld = ''score'' then d\<lparr>score := Some x\<rparr>
          else if fld = ''weightage'' then d\<lparr>weightage := Some x\<rparr>
          else d
      | JStr s \<Rightarrow>
          if fld = ''name'' then d\<lparr>name := Some s\<rparr>
          else if fld = ''description'' then d\<lparr>description := Some s\<rparr>
          else if fld = ''criteria'' then d\<lparr>criteria := Some s\<rparr>
          else if fld = ''target'' then d\<lparr>target := Some s\<rparr>
          else if fld = ''planning_remarks'' then d\<lparr>planning_remarks := Some s\<rparr>
          else d)"

definition write_row :: "nat \<Rightarrow> string \<Rightarrow> jsval \<Rightarrow> kpi_record \<Rightarrow> kpi_record" where
  "write_row kid fld v kpi =
     (if kpi_id kpi = kid then kpi\<lparr>kpi_data := kpi_write fld v (kpi_data kpi)\<rparr> else kpi)"

text \<open>
  Modelled from the spec: the write reaches the row object with the identity \<open>kid\<close>
  wherever the record holds it.
\<close>

definition acc_write_kpi :: "nat \<Rightarrow> string \<Rightarrow> jsval \<Rightarrow> form_record \<Rightarrow> form_record" where
  "acc_write_kpi kid fld v r =
     r\<lparr>data := (\<lambda>f. map_option
          (map (\<lambda>kra. kra\<lparr>kpi_ids := map (write_row kid fld v) (kpi_ids kra)\<rparr>)) (data r f))\<rparr>"

text \<open>
  An awaited Accessor call: when it resolves, the record is changed and the call is
  traced; when it rejects, the await throws.
\<close>

definition resolved :: "event \<Rightarrow> (form_record \<Rightarrow> form_record) \<Rightarrow> widget \<Rightarrow> widget" where
  "resolved ev change w =
     w\<lparr>props := (props w)\<lparr>p_record := change (p_record (props w))\<rparr>, trace := trace w @ [ev]\<rparr>"

definition call_accessor ::
  "acc_outcome \<Rightarrow> event \<Rightarrow> (form_record \<Rightarrow> form_record) \<Rightarrow> widget \<Rightarrow> error + widget" where
  "call_accessor out ev change w =
     (case out of
        Resolves \<Rightarrow> Inr (resolved ev change w)
      | Rejects \<Rightarrow> Inl Accessor_rejected)"

section \<open>Creation dialog\<close>

text \<open>
  The text typed into the dialog is a JavaScript string, a list of UTF-16 code units:
  \<^verbatim>\<open>trim\<close> works on them. \<open>js\<close> writes such a string from ASCII text.
\<close>

type_synonym code_unit = "16 word"

type_synonym js_string = "code_unit list"

definition js :: "string \<Rightarrow> js_string" where
  "js s = map of_char s"

datatype dialog_call = Confirm_call js_string | Close_call

record add_kra_dialog =
  existingNames :: "js_string list option"
  kraName :: js_string
  dialog_error :: string
  dialog_calls :: "dialog_call list"

text \<open>
  The code units that \<^verbatim>\<open>String.prototype.trim\<close> strips: the white space of ECMAScript
  (tab U+0009, vertical tab U+000B, form feed U+000C, the byte order mark U+FEFF and the
  space separators U+0020, U+00A0, U+1680, U+2000 to U+200A, U+202F, U+205F, U+3000) and
  its line terminators (U+000A, U+000D, U+2028, U+2029).
\<close>

definition is_whitespace :: "code_unit \<Rightarrow> bool" where
  "is_whitespace c =
     (c \<in> {0x0009, 0x000A, 0x000B, 0x000C, 0x000D, 0x0020, 0x00A0, 0x1680,
            0x2000, 0x2001, 0x2002, 0x2003, 0x2004, 0x2005, 0x2006, 0x2007, 0x2008, 0x2009,
            0x200A, 0x2028, 0x2029, 0x202F, 0x205F, 0x3000, 0xFEFF})"

definition trim :: "js_string \<Rightarrow> js_string" where
  "trim s = rev (dropWhile is_whitespace (rev (dropWhile is_whitespace s)))"

definition array_includes :: "'a list \<Rightarrow> 'a \<Rightarrow> bool" where
  "array_includes xs x = (x \<in> set xs)"

definition dialog_onConfirm :: "add_kra_dialog \<Rightarrow> add_kra_dialog" where
  "dialog_onConfirm d =
     (let name = trim (kraName d) in
      if name = [] then d\<lparr>dialog_error := ''KRA name is required''\<rparr>
      else if (case existingNames d of None \<Rightarrow> False | Some ns \<Rightarrow> array_includes ns name)
      then d\<lparr>dialog_error := ''A KRA with this name already exists''\<rparr>
      else d\<lparr>dialog_calls := dialog_calls d @ [Confirm_call name, Close_call]\<rparr>)"

definition dialog_onKeydown :: "string \<Rightarrow> add_kra_dialog \<Rightarrow> add_kra_dialog" where
  "dialog_onKeydown key d = (if key = ''Enter'' then dialog_onConfirm d else d)"

definition dialog_onNameChange :: "js_string \<Rightarrow> add_kra_dialog \<Rightarrow> add_kra_dialog" where
  "dialog_onNameChange v d = d\<lparr>kraName := v, dialog_error := []\<rparr>"

section \<open>Tab selection state\<close>

definition KraTabs_setup :: "kra_tabs_props \<Rightarrow> widget" where
  "KraTabs_setup p =
     \<lparr>props = p,
      state = \<lparr>activeTabIndex = 0, isDeleting = False, showRestorePanel = False\<rparr>,
      trace = []\<rparr>"

definition set_activeTabIndex :: "int \<Rightarrow> widget \<Rightarrow> widget" where
  "set_activeTabIndex i w = w\<lparr>state := (state w)\<lparr>activeTabIndex := i\<rparr>\<rparr>"

definition set_isDeleting :: "bool \<Rightarrow> widget \<Rightarrow> widget" where
  "set_isDeleting b w = w\<lparr>state := (state w)\<lparr>isDeleting := b\<rparr>\<rparr>"

text \<open>
  The hook reads the next collection under the field name of the current props and
  adjusts the index; after the hook the framework installs the next props.
\<close>

definition onWillUpdateProps :: "kra_tabs_props \<Rightarrow> widget \<Rightarrow> widget" where
  "onWillUpdateProps nextProps w =
     (let nextKraCount = int (length (records_of (p_record nextProps) (p_name (props w)))) in
      if activeTabIndex (state w) \<ge> nextKraCount \<and> nextKraCount > 0
      then set_activeTabIndex (nextKraCount - 1) w
      else if nextKraCount = 0 then set_activeTabIndex 0 w
      else w)"

definition updateProps :: "kra_tabs_props \<Rightarrow> widget \<Rightarrow> widget" where
  "updateProps nextProps w = (onWillUpdateProps nextProps w)\<lparr>props := nextProps\<rparr>"

definition setActiveTab :: "int \<Rightarrow> widget \<Rightarrow> widget" where
  "setActiveTab index w = set_activeTabIndex index w"

definition isActiveTab :: "int \<Rightarrow> widget \<Rightarrow> bool" where
  "isActiveTab index w = (activeTabIndex (state w) = index)"

section \<open>KRA/KPI mutation engine\<close>

text \<open>
  Every asynchronous method takes the outcome of the Accessor call it awaits (if it
  reaches one) and returns the widget after the method, or the error with which its
  promise rejects. A handler that runs while a call is awaited finds the widget as it is
  at the await.
\<close>

definition truthy_name :: "string option \<Rightarrow> string option" where
  "truthy_name n = (case n of None \<Rightarrow> None | Some s \<Rightarrow> if s = [] then None else Some s)"

definition onAddKRA :: "widget \<Rightarrow> error + widget" where
  "onAddKRA w =
     (if p_readonly (props w) then Inr w
      else if \<not> isTemplateMode w then Inr w
      else
        let existingNames = List.map_filter (\<lambda>kra. truthy_name (kra_name kra)) (kraRecords w)
        in Inr (w\<lparr>trace := trace w @ [Dialog_add existingNames]\<rparr>))"

text \<open>
  \<^verbatim>\<open>length > 0 ? Math.max(...sequences) : 0\<close>: the empty case of the list is the
  else branch of the conditional.
\<close>

definition maxSequence :: "widget \<Rightarrow> int" where
  "maxSequence w =
     (case map (\<lambda>k. or0 (sequence k)) (kraRecords w) of
        [] \<Rightarrow> 0
      | s # ss \<Rightarrow> fold max ss s)"

definition createKRA :: "acc_outcome \<Rightarrow> string \<Rightarrow> widget \<Rightarrow> error + widget" where
  "createKRA out kraName' w =
     (let vals = \<lparr>kra_name = Some kraName', sequence = Some (maxSequence w + 10), kpi_ids = []\<rparr>
      in case call_accessor out (Acc_record_update (p_name (props w)) vals)
                (acc_create_kra (p_name (props w)) vals) w of
           Inl e \<Rightarrow> Inl e
         | Inr w' \<Rightarrow> Inr (set_activeTabIndex (int (length (kraRecords w')) - 1) w'))"

definition duplicate_vals :: "kpi_record \<Rightarrow> kpi_fields" where
  "duplicate_vals kpiRecord =
     \<lparr>name = name (kpi_data kpiRecord),
      description = description (kpi_data kpiRecord),
      criteria = criteria (kpi_data kpiRecord),
      weightage = Some 0,
      score = None,
      is_selected = Some True,
      is_clone = Some True,
      template_kpi_id =
        (case template_kpi_id (kpi_data kpiRecord) of Some i \<Rightarrow> Some i | None \<Rightarrow> None),
      target = Some [],
      planning_remarks = Some []\<rparr>"

definition onDuplicateKPI :: "acc_outcome \<Rightarrow> kpi_record \<Rightarrow> widget \<Rightarrow> error + widget" where
  "onDuplicateKPI out kpiRecord w =
     (if p_readonly (props w) \<or> activeKRA w = None then Inr w
      else
        let i = nat (activeTabIndex (state w)); vals = duplicate_vals kpiRecord
        in call_accessor out (Acc_kra_update i vals) (acc_create_kpi (p_name (props w)) i vals) w)"

text \<open>
  A deletion is written in two parts, as the handler is: \<open>begin\<close> is the handler up to and
  including \<^verbatim>\<open>this.state.isDeleting = true\<close> (\<open>None\<close> when a guard returns before), and
  \<open>try\<close> is the \<^verbatim>\<open>try\<close>, \<^verbatim>\<open>catch\<close>, \<^verbatim>\<open>finally\<close> statement that follows, which
  awaits the Accessor. The widget that \<open>begin\<close> gives is the widget during the awaited
  call.
\<close>

definition onDeleteKRA_begin :: "widget \<Rightarrow> widget option" where
  "onDeleteKRA_begin w =
     (if p_readonly (props w) \<or> activeKRA w = None \<or> isDeleting (state w) then None
      else if \<not> isTemplateMode w then None
      else Some (set_isDeleting True w))"

definition onDeleteKRA_try :: "acc_outcome \<Rightarrow> widget \<Rightarrow> widget" where
  "onDeleteKRA_try out w1 =
     (let i = nat (activeTabIndex (state w1));
          w2 = (case call_accessor out (Acc_kraList_delete i)
                       (acc_delete_kra (p_name (props w1)) i) w1 of
                  Inr w' \<Rightarrow>
                    let newLength = int (length (kraRecords w')) in
                    if activeTabIndex (state w') \<ge> newLength \<and> newLength > 0
                    then set_activeTabIndex (newLength - 1) w'
                    else if newLength = 0 then set_activeTabIndex 0 w'
                    else w'
                | Inl e \<Rightarrow> w1\<lparr>trace := trace w1 @ [Console_error ''Error deleting KRA:'']\<rparr>)
      in set_isDeleting False w2)"

definition onDeleteKRA :: "acc_outcome \<Rightarrow> widget \<Rightarrow> error + widget" where
  "onDeleteKRA out w =
     (case onDeleteKRA_begin w of
        None \<Rightarrow> Inr w
      | Some w1 \<Rightarrow> Inr (onDeleteKRA_try out w1))"

definition add_vals :: kpi_fields where
  "add_vals =
     \<lparr>name = Some [], description = Some [], criteria = Some [], weightage = None,
      score = Some 0, is_selected = None, is_clone = None, template_kpi_id = None,
      target = None, planning_remarks = None\<rparr>"

definition onAddKPI :: "acc_outcome \<Rightarrow> widget \<Rightarrow> error + widget" where
  "onAddKPI out w =
     (if p_readonly (props w) \<or> activeKRA w = None then Inr w
      else if \<not> isTemplateMode w then Inr w
      else
        let i = nat (activeTabIndex (state w))
        in call_accessor out (Acc_kra_update i add_vals)
             (acc_create_kpi (p_name (props w)) i add_vals) w)"

definition kpiList_delete :: "acc_outcome \<Rightarrow> kpi_record \<Rightarrow> widget \<Rightarrow> error + widget" where
  "kpiList_delete out kpiRecord w =
     (let i = nat (activeTabIndex (state w))
      in call_accessor out (Acc_kpiList_delete i (kpi_id kpiRecord))
           (acc_delete_kpi (p_name (props w)) i (kpi_id kpiRecord)) w)"

definition kpiRecord_update ::
  "acc_outcome \<Rightarrow> kpi_record \<Rightarrow> string \<Rightarrow> jsval \<Rightarrow> widget \<Rightarrow> error + widget" where
  "kpiRecord_update out kpiRecord fld v w =
     call_accessor out (Acc_kpi_update (kpi_id kpiRecord) fld v)
       (acc_write_kpi (kpi_id kpiRecord) fld v) w"

definition onDeleteKPI_begin :: "widget \<Rightarrow> widget option" where
  "onDeleteKPI_begin w =
     (if p_readonly (props w) \<or> activeKRA w = None \<or> isDeleting (state w) then None
      else if isSupervisorMode w then None
      else Some (set_isDeleting True w))"

definition onDeleteKPI_try :: "acc_outcome \<Rightarrow> kpi_record \<Rightarrow> widget \<Rightarrow> widget" where
  "onDeleteKPI_try out kpiRecord w1 =
     (let body =
            (if isTemplateMode w1 then kpiList_delete out kpiRecord w1
             else if isEmployeeMode w1 then
               (if isNew kpiRecord \<or> truthy (is_clone (kpi_data kpiRecord))
                then kpiList_delete out kpiRecord w1
                else kpiRecord_update out kpiRecord ''is_selected'' (JBool False) w1)
             else Inr w1);
          w2 = (case body of
                  Inr w' \<Rightarrow> w'
                | Inl e \<Rightarrow> w1\<lparr>trace := trace w1 @ [Console_error ''Error deleting KPI:'']\<rparr>)
      in set_isDeleting False w2)"

definition onDeleteKPI :: "acc_outcome \<Rightarrow> kpi_record \<Rightarrow> widget \<Rightarrow> error + widget" where
  "onDeleteKPI out kpiRecord w =
     (case onDeleteKPI_begin w of
        None \<Rightarrow> Inr w
      | Some w1 \<Rightarrow> Inr (onDeleteKPI_try out kpiRecord w1))"

definition onRestoreKPI :: "acc_outcome \<Rightarrow> kpi_record \<Rightarrow> widget \<Rightarrow> error + widget" where
  "onRestoreKPI out kpiRecord w =
     (if p_readonly (props w) then Inr w
      else kpiRecord_update out kpiRecord ''is_selected'' (JBool True) w)"

definition onToggleRestorePanel :: "widget \<Rightarrow> widget" where
  "onToggleRestorePanel w =
     w\<lparr>state := (state w)\<lparr>showRestorePanel := \<not> showRestorePanel (state w)\<rparr>\<rparr>"

text \<open>
  \<^verbatim>\<open>parseFloat\<close> is a parameter: it gives the number read from the input text, \<open>None\<close>
  when the text is not a number.
\<close>

definition onKPIFieldChange ::
  "(string \<Rightarrow> real option) \<Rightarrow> acc_outcome \<Rightarrow> kpi_record \<Rightarrow> string \<Rightarrow> string \<Rightarrow> widget
     \<Rightarrow> error + widget" where
  "onKPIFieldChange parseFloat out kpiRecord fieldName input w =
     (if p_readonly (props w) then Inr w
      else
        let v = (if fieldName = ''score'' \<or> fieldName = ''weightage''
                 then JNum (or0 (parseFloat input)) else JStr input)
        in kpiRecord_update out kpiRecord fieldName v w)"

definition onKPICheckboxChange :: "acc_outcome \<Rightarrow> kpi_record \<Rightarrow> bool \<Rightarrow> widget \<Rightarrow> error + widget" where
  "onKPICheckboxChange out kpiRecord checked w =
     (if p_readonly (props w) then Inr w
      else kpiRecord_update out kpiRecord ''is_selected'' (JBool checked) w)"

section \<open>Vocabulary of the specification\<close>

text \<open>
  An options object supplies the mode \<open>m\<close> when it is present and its \<^verbatim>\<open>mode\<close> is the
  non-empty string \<open>m\<close>; it supplies none when it is absent, or has no mode, or an empty one.
\<close>

definition supplies :: "widget_options option \<Rightarrow> string \<Rightarrow> bool" where
  "supplies opts m = (case opts of None \<Rightarrow> False | Some ob \<Rightarrow> opt_mode ob = Some m \<and> m \<noteq> [])"

definition supplies_none :: "widget_options option \<Rightarrow> bool" where
  "supplies_none opts =
     (case opts of None \<Rightarrow> True | Some ob \<Rightarrow> opt_mode ob = None \<or> opt_mode ob = Some [])"

text \<open>
  Reconciliation as the specification words it: if the index is at least \<open>N\<close> and \<open>N\<close> is
  positive, clamp to \<open>N - 1\<close>; if \<open>N\<close> is zero, reset to zero; otherwise leave unchanged.
\<close>

definition reconcile :: "int \<Rightarrow> int \<Rightarrow> int" where
  "reconcile activeIndex N =
     (if activeIndex \<ge> N \<and> N > 0 then N - 1 else if N = 0 then 0 else activeIndex)"

text \<open>The active index is a valid index of the collection, or zero when there is no row.\<close>

definition tab_index_ok :: "widget \<Rightarrow> bool" where
  "tab_index_ok w =
     (let N = int (length (kraRecords w)); i = activeTabIndex (state w)
      in (N > 0 \<longrightarrow> 0 \<le> i \<and> i < N) \<and> (N = 0 \<longrightarrow> i = 0))"

section \<open>Example widgets\<close>

definition ex_kpi1 :: kpi_record where
  "ex_kpi1 =
     \<lparr>kpi_id = 1, isNew = False,
      kpi_data = \<lparr>name = Some ''Calls'', description = Some ''Calls made'',
        criteria = Some ''Count'', weightage = Some 5, score = Some 40,
        is_selected = Some True, is_clone = Some False, template_kpi_id = Some 7,
        target = Some ''100'', planning_remarks = Some ''weekly''\<rparr>\<rparr>"

definition ex_kpi2 :: kpi_record where
  "ex_kpi2 =
     \<lparr>kpi_id = 2, isNew = False,
      kpi_data = \<lparr>name = Some ''Visits'', description = Some ''Visits paid'',
        criteria = Some ''Count'', weightage = Some 3, score = Some 60,
        is_selected = Some False, is_clone = Some True, template_kpi_id = None,
        target = Some ''20'', planning_remarks = Some ''monthly''\<rparr>\<rparr>"

definition ex_kra :: kra_record where
  "ex_kra = \<lparr>kra_name = Some ''Sales'', sequence = Some 10, kpi_ids = [ex_kpi1, ex_kpi2]\<rparr>"

definition ex_props :: "string \<Rightarrow> string option \<Rightarrow> kra_record list \<Rightarrow> kra_tabs_props" where
  "ex_props model m kras =
     \<lparr>p_record = \<lparr>resModel = model, data = [''kra_ids'' \<mapsto> kras], activeFields = None,
                  next_id = 3\<rparr>,
      p_readonly = False, p_name = ''kra_ids'', p_options = Some \<lparr>opt_mode = m\<rparr>\<rparr>"

definition ex_template :: widget where
  "ex_template = KraTabs_setup (ex_props ''appraisal.template'' None [ex_kra])"

definition ex_employee :: widget where
  "ex_employee = KraTabs_setup (ex_props ''hr.appraisal'' (Some ''employee'') [ex_kra])"

definition ex_supervisor :: widget where
  "ex_supervisor = KraTabs_setup (ex_props ''hr.appraisal'' (Some ''supervisor'') [ex_kra])"

definition ex_readonly :: widget where
  "ex_readonly = ex_template\<lparr>props := (props ex_template)\<lparr>p_readonly := True\<rparr>\<rparr>"

definition ex_field_props :: kra_tabs_props where
  "ex_field_props =
     \<lparr>p_record = \<lparr>resModel = ''hr.appraisal'', data = [''kra_ids'' \<mapsto> [ex_kra]],
                  activeFields =
                    Some [''kra_ids'' \<mapsto> \<lparr>fi_options = Some \<lparr>opt_mode = Some ''supervisor''\<rparr>\<rparr>],
                  next_id = 3\<rparr>,
      p_readonly = False, p_name = ''kra_ids'', p_options = Some \<lparr>opt_mode = None\<rparr>\<rparr>"

definition ex_three_props :: kra_tabs_props where
  "ex_three_props = ex_props ''appraisal.template'' None [ex_kra, ex_kra, ex_kra]"

definition ex_last_of_three :: widget where
  "ex_last_of_three = setActiveTab 2 (KraTabs_setup ex_three_props)"

definition ex_dialog :: "js_string \<Rightarrow> add_kra_dialog" where
  "ex_dialog input =
     \<lparr>existingNames = Some [js ''Sales''], kraName = input, dialog_error = [],
      dialog_calls = []\<rparr>"

definition ex_duplicated :: widget where
  "ex_duplicated =
     resolved (Acc_kra_update 0 (duplicate_vals ex_kpi1))
       (acc_create_kpi ''kra_ids'' 0 (duplicate_vals ex_kpi1)) ex_employee"

section \<open>Auxiliary facts\<close>

lemma js_index_Some_iff:
  "js_index xs i = Some x \<longleftrightarrow> 0 \<le> i \<and> nat i < length xs \<and> xs ! nat i = x"
  by (auto simp: js_index_def)

lemma js_index_None_iff: "js_index xs i = None \<longleftrightarrow> i < 0 \<or> int (length xs) \<le> i"
  by (auto simp: js_index_def)

lemma map_at_conv: "i < length xs \<Longrightarrow> map_at i f xs = xs[i := f (xs ! i)]"
  by (simp add: map_at_def upd_conv_take_nth_drop Cons_nth_drop_Suc [symmetric])

lemma length_map_at [simp]: "length (map_at i f xs) = length xs"
proof (cases "i < length xs")
  case True
  then show ?thesis by (simp add: map_at_conv)
next
  case False
  then show ?thesis by (simp add: map_at_def)
qed

lemma nth_map_at: "i < length xs \<Longrightarrow> map_at i f xs ! i = f (xs ! i)"
  by (simp add: map_at_conv)

lemma call_accessor_Resolves: "call_accessor Resolves ev change w = Inr (resolved ev change w)"
  by (simp add: call_accessor_def)

lemma state_resolved [simp]: "state (resolved ev change w) = state w"
  by (simp add: resolved_def)

lemma state_set_isDeleting [simp]:
  "activeTabIndex (state (set_isDeleting b w)) = activeTabIndex (state w)"
  "isDeleting (state (set_isDeleting b w)) = b"
  by (simp_all add: set_isDeleting_def)

lemma state_set_activeTabIndex [simp]:
  "activeTabIndex (state (set_activeTabIndex i w)) = i"
  "isDeleting (state (set_activeTabIndex i w)) = isDeleting (state w)"
  by (simp_all add: set_activeTabIndex_def)

lemma props_set [simp]:
  "props (set_isDeleting b w) = props w" "props (set_activeTabIndex i w) = props w"
  by (simp_all add: set_isDeleting_def set_activeTabIndex_def)

lemma kraRecords_set [simp]:
  "kraRecords (set_isDeleting b w) = kraRecords w"
  "kraRecords (set_activeTabIndex i w) = kraRecords w"
  by (simp_all add: kraRecords_def)

lemma activeKPIs_set [simp]:
  "activeKPIs (set_isDeleting b w) = activeKPIs w"
  by (simp add: activeKPIs_def activeKRA_def)

lemma activeKRA_data:
  "activeKRA w = Some kra \<Longrightarrow>
   data (p_record (props w)) (p_name (props w)) = Some (kraRecords w)"
  by (auto simp: activeKRA_def js_index_def kraRecords_def records_of_def
      split: option.splits if_splits)

lemma activeKRA_nth:
  "activeKRA w = Some kra \<Longrightarrow>
   0 \<le> activeTabIndex (state w) \<and> nat (activeTabIndex (state w)) < length (kraRecords w)
   \<and> kraRecords w ! nat (activeTabIndex (state w)) = kra"
  by (simp add: activeKRA_def js_index_Some_iff)

lemma activeKPIs_nth:
  "0 \<le> activeTabIndex (state w) \<Longrightarrow> nat (activeTabIndex (state w)) < length (kraRecords w) \<Longrightarrow>
   activeKPIs w = kpi_ids (kraRecords w ! nat (activeTabIndex (state w)))"
  by (auto simp: activeKPIs_def activeKRA_def js_index_def)

lemma kraRecords_resolved:
  "kraRecords (resolved ev change w) = records_of (change (p_record (props w))) (p_name (props w))"
  by (simp add: kraRecords_def resolved_def)

lemma kraRecords_resolved_map_records:
  assumes "data (p_record (props w)) (p_name (props w)) = Some xs"
  shows "kraRecords (resolved ev (map_records (p_name (props w)) h) w) = h xs"
  using assms by (simp add: kraRecords_def records_of_def resolved_def map_records_def)

lemma kraRecords_resolved_write:
  "kraRecords (resolved ev (acc_write_kpi kid fld v) w) =
   map (\<lambda>kra. kra\<lparr>kpi_ids := map (write_row kid fld v) (kpi_ids kra)\<rparr>) (kraRecords w)"
  by (simp add: kraRecords_def records_of_def resolved_def acc_write_kpi_def split: option.splits)

lemma records_of_acc_create_kpi:
  assumes "data r f = Some xs"
  shows "records_of (acc_create_kpi f i vals r) f =
         map_at i (\<lambda>kra. kra\<lparr>kpi_ids := kpi_ids kra @
              [\<lparr>kpi_id = next_id r, isNew = True, kpi_data = vals\<rparr>]\<rparr>) xs"
  using assms by (simp add: records_of_def acc_create_kpi_def map_records_def)

lemma records_of_acc_create_kra: "records_of (acc_create_kra f vals r) f = records_of r f @ [vals]"
  by (simp add: records_of_def acc_create_kra_def)

lemma activeKPIs_resolved_delete:
  assumes "activeKRA w = Some kra"
  shows "activeKPIs (resolved ev
            (acc_delete_kpi (p_name (props w)) (nat (activeTabIndex (state w))) kid) w)
         = filter (\<lambda>kpi. kpi_id kpi \<noteq> kid) (kpi_ids kra)"
proof -
  let ?i = "nat (activeTabIndex (state w))"
  let ?g = "\<lambda>kra. kra\<lparr>kpi_ids := filter (\<lambda>kpi. kpi_id kpi \<noteq> kid) (kpi_ids kra)\<rparr>"
  let ?w = "resolved ev (acc_delete_kpi (p_name (props w)) ?i kid) w"
  from activeKRA_nth [OF assms]
  have i: "0 \<le> activeTabIndex (state w)" "?i < length (kraRecords w)" "kraRecords w ! ?i = kra"
    by simp_all
  have recs: "kraRecords ?w = map_at ?i ?g (kraRecords w)"
    unfolding acc_delete_kpi_def
    by (rule kraRecords_resolved_map_records [OF activeKRA_data [OF assms]])
  have "activeKPIs ?w = kpi_ids (kraRecords ?w ! ?i)"
    using i activeKPIs_nth [of ?w] by (simp add: recs)
  also have "\<dots> = kpi_ids (?g kra)"
    using i by (simp add: recs nth_map_at)
  finally show ?thesis by simp
qed

lemma activeKPIs_resolved_write:
  assumes "activeKRA w = Some kra"
  shows "activeKPIs (resolved ev (acc_write_kpi kid fld v) w) =
         map (write_row kid fld v) (kpi_ids kra)"
proof -
  let ?i = "nat (activeTabIndex (state w))"
  let ?w = "resolved ev (acc_write_kpi kid fld v) w"
  from activeKRA_nth [OF assms]
  have i: "0 \<le> activeTabIndex (state w)" "?i < length (kraRecords w)" "kraRecords w ! ?i = kra"
    by simp_all
  have "activeKPIs ?w = kpi_ids (kraRecords ?w ! ?i)"
    using i activeKPIs_nth [of ?w] by (simp add: kraRecords_resolved_write)
  also have "\<dots> = map (write_row kid fld v) (kpi_ids kra)"
    using i by (simp add: kraRecords_resolved_write)
  finally show ?thesis .
qed

lemma activeKPIs_resolved_create:
  assumes "activeKRA w = Some kra"
  shows "activeKPIs (resolved ev
            (acc_create_kpi (p_name (props w)) (nat (activeTabIndex (state w))) vals) w)
         = kpi_ids kra @ [\<lparr>kpi_id = next_id (p_record (props w)), isNew = True, kpi_data = vals\<rparr>]"
proof -
  let ?i = "nat (activeTabIndex (state w))"
  let ?g = "\<lambda>kra. kra\<lparr>kpi_ids := kpi_ids kra @
              [\<lparr>kpi_id = next_id (p_record (props w)), isNew = True, kpi_data = vals\<rparr>]\<rparr>"
  let ?w = "resolved ev (acc_create_kpi (p_name (props w)) ?i vals) w"
  from activeKRA_nth [OF assms]
  have i: "0 \<le> activeTabIndex (state w)" "?i < length (kraRecords w)" "kraRecords w ! ?i = kra"
    by simp_all
  have recs: "kraRecords ?w = map_at ?i ?g (kraRecords w)"
    by (simp add: kraRecords_resolved records_of_acc_create_kpi [OF activeKRA_data [OF assms]])
  have "activeKPIs ?w = kpi_ids (kraRecords ?w ! ?i)"
    using i activeKPIs_nth [of ?w] by (simp add: recs)
  also have "\<dots> = kpi_ids (?g kra)"
    using i by (simp add: recs nth_map_at)
  finally show ?thesis by simp
qed

lemma ex_template_facts:
  "\<not> p_readonly (props ex_template)" "activeKRA ex_template = Some ex_kra"
  "\<not> isDeleting (state ex_template)" "mode (props ex_template) = ''template''"
  "kraRecords ex_template = [ex_kra]" "activeTabIndex (state ex_template) = 0"
  by (simp_all add: ex_template_def ex_props_def KraTabs_setup_def activeKRA_def kraRecords_def
      records_of_def js_index_def mode_def)

lemma ex_employee_facts:
  "\<not> p_readonly (props ex_employee)" "activeKRA ex_employee = Some ex_kra"
  "\<not> isDeleting (state ex_employee)" "mode (props ex_employee) = ''employee''"
  "kraRecords ex_employee = [ex_kra]" "activeTabIndex (state ex_employee) = 0"
  by (simp_all add: ex_employee_def ex_props_def KraTabs_setup_def activeKRA_def kraRecords_def
      records_of_def js_index_def mode_def options_mode_def)

lemma ex_supervisor_facts:
  "\<not> p_readonly (props ex_supervisor)" "activeKRA ex_supervisor = Some ex_kra"
  "\<not> isDeleting (state ex_supervisor)" "mode (props ex_supervisor) = ''supervisor''"
  "kraRecords ex_supervisor = [ex_kra]" "activeTabIndex (state ex_supervisor) = 0"
  by (simp_all add: ex_supervisor_def ex_props_def KraTabs_setup_def activeKRA_def kraRecords_def
      records_of_def js_index_def mode_def options_mode_def)

section \<open>Mode resolver\<close>

lemma options_mode_Some: "options_mode opts = Some m \<longleftrightarrow> supplies opts m"
  by (auto simp: options_mode_def supplies_def split: option.splits)

lemma options_mode_None: "options_mode opts = None \<longleftrightarrow> supplies_none opts"
  by (auto simp: options_mode_def supplies_none_def split: option.splits)

text \<open>
  Claim C3. The mode is \<^verbatim>\<open>template\<close> whenever the record's model is the template model,
  whatever the options say; otherwise it is the mode the per-instance options supply;
  otherwise the mode the field-level default options supply; otherwise \<^verbatim>\<open>employee\<close>.
  The mode is a function of the model identity, the per-instance options and the
  field-level options alone: two props that agree on them have the same mode.
\<close>

theorem mode_resolution:
  "(resModel (p_record p) = ''appraisal.template'' \<longrightarrow> mode p = ''template'')
   \<and> (resModel (p_record p) \<noteq> ''appraisal.template'' \<and> supplies (p_options p) m
        \<longrightarrow> mode p = m)
   \<and> (resModel (p_record p) \<noteq> ''appraisal.template'' \<and> supplies_none (p_options p)
        \<and> supplies (field_options p) m \<longrightarrow> mode p = m)
   \<and> (resModel (p_record p) \<noteq> ''appraisal.template'' \<and> supplies_none (p_options p)
        \<and> supplies_none (field_options p) \<longrightarrow> mode p = ''employee'')
   \<and> (resModel (p_record p) = resModel (p_record q) \<and> p_options p = p_options q
        \<and> field_options p = field_options q \<longrightarrow> mode p = mode q)"
proof -
  have same: "mode p = mode q"
    if "resModel (p_record p) = resModel (p_record q)" "p_options p = p_options q"
       "field_options p = field_options q"
    using that by (simp add: mode_def split: option.splits)
  have rest: "(resModel (p_record p) = ''appraisal.template'' \<longrightarrow> mode p = ''template'')
   \<and> (resModel (p_record p) \<noteq> ''appraisal.template'' \<and> supplies (p_options p) m
        \<longrightarrow> mode p = m)
   \<and> (resModel (p_record p) \<noteq> ''appraisal.template'' \<and> supplies_none (p_options p)
        \<and> supplies (field_options p) m \<longrightarrow> mode p = m)
   \<and> (resModel (p_record p) \<noteq> ''appraisal.template'' \<and> supplies_none (p_options p)
        \<and> supplies_none (field_options p) \<longrightarrow> mode p = ''employee'')"
    by (simp add: mode_def options_mode_Some [symmetric] options_mode_None [symmetric])
  from same rest show ?thesis by blast
qed

text \<open>
  Witness of C3: the template model overrides a supplied \<^verbatim>\<open>supervisor\<close>; on another model
  the supplied mode is returned; without it the field-level mode; without both \<^verbatim>\<open>employee\<close>.
\<close>

theorem mode_resolution_witness:
  "mode (ex_props ''appraisal.template'' (Some ''supervisor'') []) = ''template''
   \<and> mode (ex_props ''hr.appraisal'' (Some ''supervisor'') []) = ''supervisor''
   \<and> mode ex_field_props = ''supervisor''
   \<and> mode (ex_props ''hr.appraisal'' None []) = ''employee''
   \<and> mode (ex_props ''hr.appraisal'' None [ex_kra]) = mode (ex_props ''hr.appraisal'' None [])"
proof -
  have 1: "resModel (p_record (ex_props ''appraisal.template'' (Some ''supervisor'') []))
           = ''appraisal.template''"
    by (simp add: ex_props_def)
  have 2: "resModel (p_record (ex_props ''hr.appraisal'' (Some ''supervisor'') []))
             \<noteq> ''appraisal.template''
           \<and> supplies (p_options (ex_props ''hr.appraisal'' (Some ''supervisor'') [])) ''supervisor''"
    by (simp add: ex_props_def supplies_def)
  have 3: "resModel (p_record ex_field_props) \<noteq> ''appraisal.template''
           \<and> supplies_none (p_options ex_field_props)
           \<and> supplies (field_options ex_field_props) ''supervisor''"
    by (simp add: ex_field_props_def supplies_def supplies_none_def field_options_def)
  have 4: "resModel (p_record (ex_props ''hr.appraisal'' None [])) \<noteq> ''appraisal.template''
           \<and> supplies_none (p_options (ex_props ''hr.appraisal'' None []))
           \<and> supplies_none (field_options (ex_props ''hr.appraisal'' None []))"
    by (simp add: ex_props_def supplies_none_def field_options_def)
  have 5: "resModel (p_record (ex_props ''hr.appraisal'' None [ex_kra]))
             = resModel (p_record (ex_props ''hr.appraisal'' None []))
           \<and> p_options (ex_props ''hr.appraisal'' None [ex_kra])
             = p_options (ex_props ''hr.appraisal'' None [])
           \<and> field_options (ex_props ''hr.appraisal'' None [ex_kra])
             = field_options (ex_props ''hr.appraisal'' None [])"
    by (simp add: ex_props_def field_options_def)
  from 1 mode_resolution [of "ex_props ''appraisal.template'' (Some ''supervisor'') []"]
  have c1: "mode (ex_props ''appraisal.template'' (Some ''supervisor'') []) = ''template''"
    by simp
  from 2 mode_resolution [of "ex_props ''hr.appraisal'' (Some ''supervisor'') []" "''supervisor''"]
  have c2: "mode (ex_props ''hr.appraisal'' (Some ''supervisor'') []) = ''supervisor''"
    by simp
  from 3 mode_resolution [of ex_field_props "''supervisor''"]
  have c3: "mode ex_field_props = ''supervisor''"
    by simp
  from 4 mode_resolution [of "ex_props ''hr.appraisal'' None []"]
  have c4: "mode (ex_props ''hr.appraisal'' None []) = ''employee''"
    by simp
  from 5 mode_resolution [of "ex_props ''hr.appraisal'' None [ex_kra]" _
      "ex_props ''hr.appraisal'' None []"]
  have c5: "mode (ex_props ''hr.appraisal'' None [ex_kra]) = mode (ex_props ''hr.appraisal'' None [])"
    by simp
  from c1 c2 c3 c4 c5 show ?thesis by (intro conjI)
qed

section \<open>Score aggregator\<close>

lemma foldl_plus_sum_list:
  "foldl (\<lambda>sum x. sum + f x) a xs = a + sum_list (map f xs)" for a :: real
  by (induction xs arbitrary: a) (simp_all add: add.assoc)

text \<open>
  Claim C5. For the active KRA: in template mode the total score is the sum of \<^verbatim>\<open>score\<close>
  over all its KPIs, whatever \<^verbatim>\<open>is_selected\<close> is; in every other mode, employee and
  supervisor among them, it is the sum of \<^verbatim>\<open>weightage\<close> over the KPIs with
  \<^verbatim>\<open>is_selected = true\<close> only. A missing score or weightage counts as 0.
\<close>

theorem activeTotalScore_sum:
  assumes "activeKRA w = Some kra"
  shows "(mode (props w) = ''template'' \<longrightarrow>
           activeTotalScore w = (\<Sum>kpi\<leftarrow>kpi_ids kra. or0 (score (kpi_data kpi))))
       \<and> (mode (props w) \<noteq> ''template'' \<longrightarrow>
           activeTotalScore w =
             (\<Sum>kpi\<leftarrow>filter (\<lambda>kpi. is_selected (kpi_data kpi) = Some True) (kpi_ids kra).
                 or0 (weightage (kpi_data kpi))))"
  using assms
  by (auto simp: activeTotalScore_def isTemplateMode_def activeKPIs_def truthy_def
      foldl_plus_sum_list)

text \<open>
  Witness of C5: the KPIs have weightage 5 (selected) and 3 (not selected), scores 40 and
  60: the total is 5 in employee and supervisor mode and 100 in template mode.
\<close>

theorem activeTotalScore_sum_witness:
  "activeKRA ex_employee = Some ex_kra \<and> activeTotalScore ex_employee = 5
   \<and> activeTotalScore ex_supervisor = 5 \<and> activeTotalScore ex_template = 100"
  using activeTotalScore_sum [OF ex_employee_facts(2)]
    activeTotalScore_sum [OF ex_supervisor_facts(2)]
    activeTotalScore_sum [OF ex_template_facts(2)]
  by (simp add: ex_employee_facts ex_supervisor_facts ex_template_facts ex_kra_def ex_kpi1_def
      ex_kpi2_def or0_def)

section \<open>Creation dialog\<close>

lemma trim_empty_iff: "trim s = [] \<longleftrightarrow> (\<forall>c\<in>set s. is_whitespace c)"
proof
  assume "\<forall>c\<in>set s. is_whitespace c"
  then have d: "dropWhile is_whitespace s = []"
    by (induction s) simp_all
  show "trim s = []" unfolding trim_def d by simp
next
  assume "trim s = []"
  then have "\<forall>c\<in>set (rev (dropWhile is_whitespace s)). is_whitespace c"
    by (simp add: trim_def)
  then have "dropWhile is_whitespace s = []"
    by (metis dropWhile_eq_Nil_conv hd_dropWhile list.set_sel(1) set_rev)
  then show "\<forall>c\<in>set s. is_whitespace c"
    by (simp add: dropWhile_eq_Nil_conv)
qed

lemma trim_core:
  assumes "\<forall>c\<in>set a. is_whitespace c" "\<forall>c\<in>set b. is_whitespace c"
    "n \<noteq> []" "\<not> is_whitespace (hd n)" "\<not> is_whitespace (last n)"
  shows "trim (a @ n @ b) = n"
proof -
  have 1: "dropWhile is_whitespace (a @ n @ b) = n @ b"
    using assms(1,3,4) by (cases n) (simp_all add: dropWhile_append)
  have 2: "dropWhile is_whitespace (rev (n @ b)) = rev n"
    using assms(2,3,5) by (cases n rule: rev_cases) (simp_all add: dropWhile_append)
  show ?thesis by (simp only: trim_def 1 2 rev_rev_ident)
qed

text \<open>
  Claim C7. The trimmed name is the input without its leading and trailing white space:
  it is empty exactly when the input is empty or all white space, and an input made of
  white space, a text that neither starts nor ends with white space, and white space
  again is trimmed to that text. On confirmation: if the trimmed name is empty, or if it
  is one of the existing names handed to the dialog, the dialog sets a non-empty error
  message and calls neither the confirmation callback nor \<^verbatim>\<open>close\<close>; otherwise it calls
  the confirmation callback once, with the trimmed name, and then \<^verbatim>\<open>close\<close>.
\<close>

theorem dialog_onConfirm_validates:
  "(trim (kraName d) = [] \<longleftrightarrow> (\<forall>c\<in>set (kraName d). is_whitespace c))
   \<and> ((\<forall>c\<in>set a. is_whitespace c) \<and> (\<forall>c\<in>set b. is_whitespace c) \<and> n \<noteq> []
        \<and> \<not> is_whitespace (hd n) \<and> \<not> is_whitespace (last n) \<and> kraName d = a @ n @ b \<longrightarrow>
        trim (kraName d) = n)
   \<and> (trim (kraName d) = [] \<longrightarrow>
        dialog_error (dialog_onConfirm d) = ''KRA name is required''
        \<and> dialog_error (dialog_onConfirm d) \<noteq> []
        \<and> dialog_calls (dialog_onConfirm d) = dialog_calls d)
   \<and> (trim (kraName d) \<noteq> [] \<and> existingNames d = Some ns \<and> trim (kraName d) \<in> set ns \<longrightarrow>
        dialog_error (dialog_onConfirm d) = ''A KRA with this name already exists''
        \<and> dialog_error (dialog_onConfirm d) \<noteq> []
        \<and> dialog_calls (dialog_onConfirm d) = dialog_calls d)
   \<and> (trim (kraName d) \<noteq> []
        \<and> (existingNames d = None \<or> existingNames d = Some ns \<and> trim (kraName d) \<notin> set ns) \<longrightarrow>
        dialog_onConfirm d =
          d\<lparr>dialog_calls := dialog_calls d @ [Confirm_call (trim (kraName d)), Close_call]\<rparr>)"
proof -
  have 1: "trim (kraName d) = [] \<longleftrightarrow> (\<forall>c\<in>set (kraName d). is_whitespace c)"
    by (rule trim_empty_iff)
  have 2: "(\<forall>c\<in>set a. is_whitespace c) \<and> (\<forall>c\<in>set b. is_whitespace c) \<and> n \<noteq> []
        \<and> \<not> is_whitespace (hd n) \<and> \<not> is_whitespace (last n) \<and> kraName d = a @ n @ b \<longrightarrow>
        trim (kraName d) = n"
    using trim_core [of a b n] by simp
  have 3: "(trim (kraName d) = [] \<longrightarrow>
        dialog_error (dialog_onConfirm d) = ''KRA name is required''
        \<and> dialog_error (dialog_onConfirm d) \<noteq> []
        \<and> dialog_calls (dialog_onConfirm d) = dialog_calls d)
   \<and> (trim (kraName d) \<noteq> [] \<and> existingNames d = Some ns \<and> trim (kraName d) \<in> set ns \<longrightarrow>
        dialog_error (dialog_onConfirm d) = ''A KRA with this name already exists''
        \<and> dialog_error (dialog_onConfirm d) \<noteq> []
        \<and> dialog_calls (dialog_onConfirm d) = dialog_calls d)
   \<and> (trim (kraName d) \<noteq> []
        \<and> (existingNames d = None \<or> existingNames d = Some ns \<and> trim (kraName d) \<notin> set ns) \<longrightarrow>
        dialog_onConfirm d =
          d\<lparr>dialog_calls := dialog_calls d @ [Confirm_call (trim (kraName d)), Close_call]\<rparr>)"
    by (auto simp: dialog_onConfirm_def array_includes_def Let_def)
  from 1 2 3 show ?thesis by (intro conjI) simp_all
qed

text \<open>
  Witness of C7, with the existing name \<^verbatim>\<open>Sales\<close>: blanks are rejected, and so is a
  no-break space followed by a byte order mark; \<^verbatim>\<open>Sales\<close> between blanks is rejected as
  a duplicate; \<^verbatim>\<open>Ops\<close> between a no-break space and a line separator is confirmed as
  \<^verbatim>\<open>Ops\<close>.
\<close>

theorem dialog_onConfirm_validates_witness:
  "dialog_error (dialog_onConfirm (ex_dialog (js ''   ''))) = ''KRA name is required''
   \<and> dialog_calls (dialog_onConfirm (ex_dialog (js ''   ''))) = []
   \<and> dialog_error (dialog_onConfirm (ex_dialog [0xA0, 0xFEFF])) = ''KRA name is required''
   \<and> dialog_calls (dialog_onConfirm (ex_dialog [0xA0, 0xFEFF])) = []
   \<and> dialog_error (dialog_onConfirm (ex_dialog (js '' Sales '')))
       = ''A KRA with this name already exists''
   \<and> dialog_calls (dialog_onConfirm (ex_dialog (js '' Sales ''))) = []
   \<and> dialog_calls (dialog_onConfirm (ex_dialog ([0xA0] @ js ''Ops'' @ [0x2028])))
       = [Confirm_call (js ''Ops''), Close_call]"
proof -
  have w: "\<forall>c\<in>set (js ''   ''). is_whitespace c" "\<forall>c\<in>set [0xA0, 0xFEFF]. is_whitespace c"
    "\<forall>c\<in>set [0xA0]. is_whitespace c" "\<forall>c\<in>set [0x2028]. is_whitespace c"
    "\<forall>c\<in>set (js '' ''). is_whitespace c"
    by (simp_all add: js_def is_whitespace_def)
  have n: "js ''Ops'' \<noteq> []" "\<not> is_whitespace (hd (js ''Ops''))"
    "\<not> is_whitespace (last (js ''Ops''))"
    "js ''Sales'' \<noteq> []" "\<not> is_whitespace (hd (js ''Sales''))"
    "\<not> is_whitespace (last (js ''Sales''))" "js ''Ops'' \<noteq> js ''Sales''"
    "js '' Sales '' = js '' '' @ js ''Sales'' @ js '' ''"
    by (simp_all add: js_def is_whitespace_def)
  have a: "dialog_error (dialog_onConfirm (ex_dialog (js ''   ''))) = ''KRA name is required''
           \<and> dialog_calls (dialog_onConfirm (ex_dialog (js ''   ''))) = []"
    using dialog_onConfirm_validates [of "ex_dialog (js ''   '')"] w(1)
    by (simp add: ex_dialog_def)
  have b: "dialog_error (dialog_onConfirm (ex_dialog [0xA0, 0xFEFF])) = ''KRA name is required''
           \<and> dialog_calls (dialog_onConfirm (ex_dialog [0xA0, 0xFEFF])) = []"
    using dialog_onConfirm_validates [of "ex_dialog [0xA0, 0xFEFF]"] w(2)
    by (simp add: ex_dialog_def)
  have ts: "trim (kraName (ex_dialog (js '' Sales ''))) = js ''Sales''"
    using dialog_onConfirm_validates [of "ex_dialog (js '' Sales '')" "js '' ''" "js '' ''"
        "js ''Sales''"] w(5) n(4,5,6,8)
    by (simp add: ex_dialog_def)
  have c: "dialog_error (dialog_onConfirm (ex_dialog (js '' Sales '')))
             = ''A KRA with this name already exists''
           \<and> dialog_calls (dialog_onConfirm (ex_dialog (js '' Sales ''))) = []"
    using dialog_onConfirm_validates [of "ex_dialog (js '' Sales '')" _ _ _ "[js ''Sales'']"]
      ts n(4)
    by (simp add: ex_dialog_def)
  have tOps: "trim (kraName (ex_dialog ([0xA0] @ js ''Ops'' @ [0x2028]))) = js ''Ops''"
    using dialog_onConfirm_validates [of "ex_dialog ([0xA0] @ js ''Ops'' @ [0x2028])" "[0xA0]"
        "[0x2028]" "js ''Ops''"] w(3,4) n(1,2,3)
    by (simp add: ex_dialog_def)
  have e: "dialog_calls (dialog_onConfirm (ex_dialog ([0xA0] @ js ''Ops'' @ [0x2028])))
             = [Confirm_call (js ''Ops''), Close_call]"
    using dialog_onConfirm_validates [of "ex_dialog ([0xA0] @ js ''Ops'' @ [0x2028])" _ _ _
        "[js ''Sales'']"] tOps n(1,7)
    by (simp add: ex_dialog_def)
  from a b c e show ?thesis by simp
qed

section \<open>Tab selection: explicit selection\<close>

text \<open>
  Claim C10. \<^verbatim>\<open>setActiveTab\<close> stores any integer as the active index, with no check
  against the collection, and leaves the collection alone. When the stored index is out
  of range (negative, or at least the number of KRAs) the active KRA reads as null
  instead of failing, and then every operation that needs an active KRA (duplicate KPI,
  delete KRA, add KPI, delete KPI) returns the widget unchanged; the active KPIs read as
  the empty list.
\<close>

theorem setActiveTab_unchecked:
  "activeTabIndex (state (setActiveTab i w)) = i
   \<and> kraRecords (setActiveTab i w) = kraRecords w
   \<and> (i < 0 \<or> int (length (kraRecords w)) \<le> i \<longrightarrow> activeKRA (setActiveTab i w) = None)
   \<and> (activeKRA w = None \<longrightarrow>
        activeKPIs w = [] \<and> onDuplicateKPI out kpi w = Inr w \<and> onDeleteKRA out w = Inr w
        \<and> onAddKPI out w = Inr w \<and> onDeleteKPI out kpi w = Inr w)"
proof -
  have 1: "activeTabIndex (state (setActiveTab i w)) = i
           \<and> kraRecords (setActiveTab i w) = kraRecords w"
    by (simp add: setActiveTab_def)
  then have 2: "i < 0 \<or> int (length (kraRecords w)) \<le> i \<longrightarrow> activeKRA (setActiveTab i w) = None"
    by (simp add: activeKRA_def js_index_None_iff)
  have 3: "activeKRA w = None \<longrightarrow>
        activeKPIs w = [] \<and> onDuplicateKPI out kpi w = Inr w \<and> onDeleteKRA out w = Inr w
        \<and> onAddKPI out w = Inr w \<and> onDeleteKPI out kpi w = Inr w"
    by (simp add: activeKPIs_def onDuplicateKPI_def onDeleteKRA_def onDeleteKRA_begin_def onDeleteKRA_try_def onAddKPI_def onDeleteKPI_def onDeleteKPI_begin_def onDeleteKPI_try_def)
  from 1 2 3 show ?thesis by (intro conjI) simp_all
qed

text \<open>
  Witness of C10: the index 5 and the index -1 are stored on a widget with one KRA; in
  both cases there is no active KRA and adding a KPI changes nothing.
\<close>

theorem setActiveTab_unchecked_witness:
  "activeTabIndex (state (setActiveTab 5 ex_template)) = 5
   \<and> activeKRA (setActiveTab 5 ex_template) = None
   \<and> onAddKPI Resolves (setActiveTab 5 ex_template) = Inr (setActiveTab 5 ex_template)
   \<and> activeTabIndex (state (setActiveTab (- 1) ex_template)) = - 1
   \<and> activeKRA (setActiveTab (- 1) ex_template) = None
   \<and> onDeleteKPI Resolves ex_kpi1 (setActiveTab (- 1) ex_template)
       = Inr (setActiveTab (- 1) ex_template)"
proof -
  have a: "activeTabIndex (state (setActiveTab 5 ex_template)) = 5
           \<and> activeKRA (setActiveTab 5 ex_template) = None"
    using setActiveTab_unchecked [of 5 ex_template] by (simp add: ex_template_facts)
  have b: "activeTabIndex (state (setActiveTab (- 1) ex_template)) = - 1
           \<and> activeKRA (setActiveTab (- 1) ex_template) = None"
    using setActiveTab_unchecked [of "- 1" ex_template] by (simp add: ex_template_facts)
  from a setActiveTab_unchecked [of _ "setActiveTab 5 ex_template" Resolves ex_kpi1]
  have c: "onAddKPI Resolves (setActiveTab 5 ex_template) = Inr (setActiveTab 5 ex_template)"
    by simp
  from b setActiveTab_unchecked [of _ "setActiveTab (- 1) ex_template" Resolves ex_kpi1]
  have d: "onDeleteKPI Resolves ex_kpi1 (setActiveTab (- 1) ex_template)
           = Inr (setActiveTab (- 1) ex_template)"
    by simp
  from a b c d show ?thesis by simp
qed

section \<open>Deleting a KPI\<close>

lemma ex_rows:
  "kpi_ids ex_kra = [ex_kpi1, ex_kpi2]" "kpi_id ex_kpi1 = 1" "kpi_id ex_kpi2 = 2"
  "\<not> isNew ex_kpi1" "\<not> isNew ex_kpi2"
  "is_clone (kpi_data ex_kpi1) = Some False" "is_clone (kpi_data ex_kpi2) = Some True"
  by (simp_all add: ex_kra_def ex_kpi1_def ex_kpi2_def)

text \<open>
  Claim C1. When the widget is not read-only, has an active KRA and is not already
  deleting, and the Accessor call resolves: in template mode \<^verbatim>\<open>onDeleteKPI\<close> removes the
  row from the active KRA's collection (no row with its identity remains, the other rows
  stay as they are); in employee mode it removes the row likewise when the row is unsaved
  or has \<^verbatim>\<open>is_clone = true\<close>, and otherwise keeps every row in place and sets
  \<^verbatim>\<open>is_selected\<close> of the row to false. In supervisor mode it returns the widget unchanged,
  whatever the Accessor would answer.
\<close>

theorem onDeleteKPI_by_mode:
  assumes "\<not> p_readonly (props w)" and "activeKRA w = Some kra" and "\<not> isDeleting (state w)"
  shows "(mode (props w) = ''template'' \<or>
          mode (props w) = ''employee'' \<and> (isNew kpi \<or> is_clone (kpi_data kpi) = Some True) \<longrightarrow>
            (\<exists>w'. onDeleteKPI Resolves kpi w = Inr w'
               \<and> activeKPIs w' = filter (\<lambda>r. kpi_id r \<noteq> kpi_id kpi) (kpi_ids kra)
               \<and> kpi \<notin> set (activeKPIs w')))
       \<and> (mode (props w) = ''employee'' \<and> \<not> isNew kpi \<and> is_clone (kpi_data kpi) \<noteq> Some True \<longrightarrow>
            (\<exists>w'. onDeleteKPI Resolves kpi w = Inr w'
               \<and> activeKPIs w' =
                    map (\<lambda>r. if kpi_id r = kpi_id kpi
                             then r\<lparr>kpi_data := (kpi_data r)\<lparr>is_selected := Some False\<rparr>\<rparr> else r)
                      (kpi_ids kra)
               \<and> (kpi \<in> set (kpi_ids kra) \<longrightarrow>
                    kpi\<lparr>kpi_data := (kpi_data kpi)\<lparr>is_selected := Some False\<rparr>\<rparr>
                      \<in> set (activeKPIs w'))))
       \<and> (mode (props w) = ''supervisor'' \<longrightarrow> onDeleteKPI out kpi w = Inr w)"
proof -
  let ?w1 = "set_isDeleting True w"
  let ?soft = "\<lambda>r. if kpi_id r = kpi_id kpi
                    then r\<lparr>kpi_data := (kpi_data r)\<lparr>is_selected := Some False\<rparr>\<rparr> else r"
  have a1: "activeKRA ?w1 = Some kra"
    using assms(2) by (simp add: activeKRA_def)
  have hard: "onDeleteKPI Resolves kpi w =
      Inr (set_isDeleting False
            (resolved (Acc_kpiList_delete (nat (activeTabIndex (state ?w1))) (kpi_id kpi))
               (acc_delete_kpi (p_name (props ?w1)) (nat (activeTabIndex (state ?w1))) (kpi_id kpi))
               ?w1))"
    if "mode (props w) = ''template'' \<or>
        mode (props w) = ''employee'' \<and> (isNew kpi \<or> is_clone (kpi_data kpi) = Some True)"
    using that assms
    by (auto simp: onDeleteKPI_def onDeleteKPI_begin_def onDeleteKPI_try_def isSupervisorMode_def isTemplateMode_def isEmployeeMode_def
        kpiList_delete_def call_accessor_Resolves truthy_def Let_def)
  have soft: "onDeleteKPI Resolves kpi w =
      Inr (set_isDeleting False
            (resolved (Acc_kpi_update (kpi_id kpi) ''is_selected'' (JBool False))
               (acc_write_kpi (kpi_id kpi) ''is_selected'' (JBool False)) ?w1))"
    if "mode (props w) = ''employee''" "\<not> isNew kpi" "is_clone (kpi_data kpi) \<noteq> Some True"
    using that assms
    by (auto simp: onDeleteKPI_def onDeleteKPI_begin_def onDeleteKPI_try_def isSupervisorMode_def isTemplateMode_def isEmployeeMode_def
        kpiRecord_update_def call_accessor_Resolves truthy_def Let_def)
  have wr: "write_row (kpi_id kpi) ''is_selected'' (JBool False) = ?soft"
    by (rule ext) (simp add: write_row_def kpi_write_def)
  have kept: "kpi\<lparr>kpi_data := (kpi_data kpi)\<lparr>is_selected := Some False\<rparr>\<rparr>
                \<in> set (map ?soft (kpi_ids kra))" if "kpi \<in> set (kpi_ids kra)"
    using that by (force simp: image_iff)
  have sup: "onDeleteKPI out kpi w = Inr w" if "mode (props w) = ''supervisor''"
    using that by (simp add: onDeleteKPI_def onDeleteKPI_begin_def onDeleteKPI_try_def isSupervisorMode_def)
  have del: "activeKPIs (set_isDeleting False
            (resolved (Acc_kpiList_delete (nat (activeTabIndex (state ?w1))) (kpi_id kpi))
               (acc_delete_kpi (p_name (props ?w1)) (nat (activeTabIndex (state ?w1))) (kpi_id kpi))
               ?w1)) = filter (\<lambda>r. kpi_id r \<noteq> kpi_id kpi) (kpi_ids kra)"
    using activeKPIs_resolved_delete [OF a1] by simp
  have upd: "activeKPIs (set_isDeleting False
            (resolved (Acc_kpi_update (kpi_id kpi) ''is_selected'' (JBool False))
               (acc_write_kpi (kpi_id kpi) ''is_selected'' (JBool False)) ?w1))
             = map ?soft (kpi_ids kra)"
    using activeKPIs_resolved_write [OF a1] by (simp add: wr)
  have gone: "kpi \<notin> set (filter (\<lambda>r. kpi_id r \<noteq> kpi_id kpi) (kpi_ids kra))"
    by simp
  show ?thesis
  proof (intro conjI impI)
    assume "mode (props w) = ''template'' \<or>
          mode (props w) = ''employee'' \<and> (isNew kpi \<or> is_clone (kpi_data kpi) = Some True)"
    from hard [OF this] del gone
    show "\<exists>w'. onDeleteKPI Resolves kpi w = Inr w'
               \<and> activeKPIs w' = filter (\<lambda>r. kpi_id r \<noteq> kpi_id kpi) (kpi_ids kra)
               \<and> kpi \<notin> set (activeKPIs w')"
      by simp
  next
    assume "mode (props w) = ''employee'' \<and> \<not> isNew kpi \<and> is_clone (kpi_data kpi) \<noteq> Some True"
    then have "onDeleteKPI Resolves kpi w =
      Inr (set_isDeleting False
            (resolved (Acc_kpi_update (kpi_id kpi) ''is_selected'' (JBool False))
               (acc_write_kpi (kpi_id kpi) ''is_selected'' (JBool False)) ?w1))"
      using soft by blast
    with upd kept
    show "\<exists>w'. onDeleteKPI Resolves kpi w = Inr w'
               \<and> activeKPIs w' = map ?soft (kpi_ids kra)
               \<and> (kpi \<in> set (kpi_ids kra) \<longrightarrow>
                    kpi\<lparr>kpi_data := (kpi_data kpi)\<lparr>is_selected := Some False\<rparr>\<rparr>
                      \<in> set (activeKPIs w'))"
      by simp
  next
    assume "mode (props w) = ''supervisor''"
    then show "onDeleteKPI out kpi w = Inr w" by (rule sup)
  qed
qed

text \<open>
  Witness of C1, on a KRA with the rows 1 (inherited from the template) and 2 (a clone):
  in template mode deleting row 1 leaves row 2; in employee mode deleting the clone leaves
  row 1, and deleting row 1 keeps both rows, row 1 with \<^verbatim>\<open>is_selected = false\<close>; in
  supervisor mode nothing changes.
\<close>

theorem onDeleteKPI_by_mode_witness:
  "(\<exists>w'. onDeleteKPI Resolves ex_kpi1 ex_template = Inr w' \<and> activeKPIs w' = [ex_kpi2])
   \<and> (\<exists>w'. onDeleteKPI Resolves ex_kpi2 ex_employee = Inr w' \<and> activeKPIs w' = [ex_kpi1])
   \<and> (\<exists>w'. onDeleteKPI Resolves ex_kpi1 ex_employee = Inr w'
         \<and> activeKPIs w' =
             [ex_kpi1\<lparr>kpi_data := (kpi_data ex_kpi1)\<lparr>is_selected := Some False\<rparr>\<rparr>, ex_kpi2])
   \<and> onDeleteKPI Resolves ex_kpi1 ex_supervisor = Inr ex_supervisor"
proof -
  have a: "\<exists>w'. onDeleteKPI Resolves ex_kpi1 ex_template = Inr w' \<and> activeKPIs w' = [ex_kpi2]"
    using onDeleteKPI_by_mode [OF ex_template_facts(1,2,3), of ex_kpi1]
    by (auto simp: ex_template_facts(4) ex_rows)
  have b: "\<exists>w'. onDeleteKPI Resolves ex_kpi2 ex_employee = Inr w' \<and> activeKPIs w' = [ex_kpi1]"
    using onDeleteKPI_by_mode [OF ex_employee_facts(1,2,3), of ex_kpi2]
    by (auto simp: ex_employee_facts(4) ex_rows)
  have c: "\<exists>w'. onDeleteKPI Resolves ex_kpi1 ex_employee = Inr w'
         \<and> activeKPIs w' =
             [ex_kpi1\<lparr>kpi_data := (kpi_data ex_kpi1)\<lparr>is_selected := Some False\<rparr>\<rparr>, ex_kpi2]"
    using onDeleteKPI_by_mode [OF ex_employee_facts(1,2,3), of ex_kpi1]
    by (auto simp: ex_employee_facts(4) ex_rows)
  have d: "onDeleteKPI Resolves ex_kpi1 ex_supervisor = Inr ex_supervisor"
    using onDeleteKPI_by_mode [OF ex_supervisor_facts(1,2,3), of ex_kpi1 Resolves]
    by (simp add: ex_supervisor_facts(4))
  from a b c d show ?thesis by (intro conjI)
qed

section \<open>Duplicating a KPI\<close>

text \<open>
  Claim C6. When the widget is not read-only and has an active KRA, and the Accessor call
  resolves, \<^verbatim>\<open>onDuplicateKPI\<close> appends one new row to the KPIs of the active KRA. The new
  row has the name, description and criteria of the source row, \<^verbatim>\<open>weightage = 0\<close>,
  \<^verbatim>\<open>is_selected = true\<close>, \<^verbatim>\<open>is_clone = true\<close>, empty \<^verbatim>\<open>target\<close> and
  \<^verbatim>\<open>planning_remarks\<close>, and the template origin of the source row (none when the source
  has none).
\<close>

theorem onDuplicateKPI_row:
  assumes "\<not> p_readonly (props w)" and "activeKRA w = Some kra"
  shows "\<exists>w' new. onDuplicateKPI Resolves src w = Inr w'
          \<and> activeKPIs w' = kpi_ids kra @ [new]
          \<and> name (kpi_data new) = name (kpi_data src)
          \<and> description (kpi_data new) = description (kpi_data src)
          \<and> criteria (kpi_data new) = criteria (kpi_data src)
          \<and> weightage (kpi_data new) = Some 0
          \<and> is_selected (kpi_data new) = Some True
          \<and> is_clone (kpi_data new) = Some True
          \<and> target (kpi_data new) = Some []
          \<and> planning_remarks (kpi_data new) = Some []
          \<and> template_kpi_id (kpi_data new) = template_kpi_id (kpi_data src)"
proof -
  let ?i = "nat (activeTabIndex (state w))"
  let ?w = "resolved (Acc_kra_update ?i (duplicate_vals src))
              (acc_create_kpi (p_name (props w)) ?i (duplicate_vals src)) w"
  let ?new = "\<lparr>kpi_id = next_id (p_record (props w)), isNew = True,
               kpi_data = duplicate_vals src\<rparr>"
  have "onDuplicateKPI Resolves src w = Inr ?w"
    using assms by (simp add: onDuplicateKPI_def call_accessor_Resolves Let_def)
  moreover have "activeKPIs ?w = kpi_ids kra @ [?new]"
    by (rule activeKPIs_resolved_create [OF assms(2)])
  moreover have "template_kpi_id (kpi_data ?new) = template_kpi_id (kpi_data src)"
    by (simp add: duplicate_vals_def split: option.splits)
  ultimately show ?thesis
    by (intro exI [of _ ?w] exI [of _ ?new]) (simp add: duplicate_vals_def)
qed

text \<open>
  Witness of C6: duplicating row 1 (weightage 5, template origin 7) in employee mode
  gives a third row with its name, description and criteria, weightage 0 and origin 7.
\<close>

theorem onDuplicateKPI_row_witness:
  "\<exists>w' new. onDuplicateKPI Resolves ex_kpi1 ex_employee = Inr w'
     \<and> activeKPIs w' = [ex_kpi1, ex_kpi2, new]
     \<and> name (kpi_data new) = Some ''Calls''
     \<and> description (kpi_data new) = Some ''Calls made''
     \<and> criteria (kpi_data new) = Some ''Count''
     \<and> weightage (kpi_data new) = Some 0
     \<and> is_selected (kpi_data new) = Some True
     \<and> is_clone (kpi_data new) = Some True
     \<and> target (kpi_data new) = Some []
     \<and> planning_remarks (kpi_data new) = Some []
     \<and> template_kpi_id (kpi_data new) = Some 7"
proof -
  have src: "name (kpi_data ex_kpi1) = Some ''Calls''"
    "description (kpi_data ex_kpi1) = Some ''Calls made''"
    "criteria (kpi_data ex_kpi1) = Some ''Count''"
    "template_kpi_id (kpi_data ex_kpi1) = Some 7"
    by (simp_all add: ex_kpi1_def)
  from onDuplicateKPI_row [OF ex_employee_facts(1,2), of ex_kpi1]
  show ?thesis by (simp add: src ex_rows(1))
qed

section \<open>Creating a KRA\<close>

lemma fold_max_Max: "fold max ss (s::int) = Max (set (s # ss))"
  by (rule Max.set_eq_fold [symmetric])

lemma maxSequence_Max:
  "maxSequence w =
     (if kraRecords w = [] then 0 else Max (set (map (\<lambda>k. or0 (sequence k)) (kraRecords w))))"
proof (cases "kraRecords w")
  case Nil
  then show ?thesis by (simp add: maxSequence_def)
next
  case (Cons k ks)
  let ?f = "\<lambda>k. or0 (sequence k)"
  have "maxSequence w = fold max (map ?f ks) (?f k)"
    by (simp add: maxSequence_def Cons)
  also have "\<dots> = Max (set (?f k # map ?f ks))"
    by (rule fold_max_Max)
  also have "\<dots> = Max (set (map ?f (kraRecords w)))"
    by (simp add: Cons)
  finally show ?thesis by (simp add: Cons)
qed

text \<open>
  Claim C4. When the Accessor call resolves, \<^verbatim>\<open>createKRA\<close> appends one row to the KRA
  collection: the row has the given name, no KPIs, and as sequence the maximum of the
  existing rows' sequences (a missing sequence counting as 0; 0 when there is no row) plus
  10. Then the active index is the index of the new row, the new length minus 1, so the
  new row is the active KRA.
\<close>

theorem createKRA_appends:
  "\<exists>w'. createKRA Resolves kraName' w = Inr w'
     \<and> kraRecords w' = kraRecords w @
          [\<lparr>kra_name = Some kraName',
            sequence = Some ((if kraRecords w = [] then 0
                              else Max (set (map (\<lambda>k. or0 (sequence k)) (kraRecords w)))) + 10),
            kpi_ids = []\<rparr>]
     \<and> activeTabIndex (state w') = int (length (kraRecords w')) - 1
     \<and> activeKRA w' = Some \<lparr>kra_name = Some kraName',
            sequence = Some ((if kraRecords w = [] then 0
                              else Max (set (map (\<lambda>k. or0 (sequence k)) (kraRecords w)))) + 10),
            kpi_ids = []\<rparr>"
  by (simp add: createKRA_def call_accessor_Resolves Let_def kraRecords_resolved
      records_of_acc_create_kra maxSequence_Max [symmetric] activeKRA_def js_index_def
      kraRecords_def [symmetric])

text \<open>
  Witness of C4: from the single KRA \<^verbatim>\<open>Sales\<close> with sequence 10, creating \<^verbatim>\<open>Ops\<close> gives
  the sequences 10 and 20, and \<^verbatim>\<open>Ops\<close>, at index 1, is the active KRA.
\<close>

theorem createKRA_appends_witness:
  "\<exists>w'. createKRA Resolves ''Ops'' ex_template = Inr w'
     \<and> map sequence (kraRecords w') = [Some 10, Some 20]
     \<and> activeTabIndex (state w') = 1
     \<and> activeKRA w' = Some \<lparr>kra_name = Some ''Ops'', sequence = Some 20, kpi_ids = []\<rparr>"
proof -
  have s: "sequence ex_kra = Some 10"
    by (simp add: ex_kra_def)
  from createKRA_appends [of "''Ops''" ex_template]
  show ?thesis by (auto simp: ex_template_facts(5) s or0_def)
qed

section \<open>Tab selection: reconciliation\<close>

lemma reconcile_range:
  "0 \<le> i \<Longrightarrow> 0 \<le> N \<Longrightarrow>
   (N > 0 \<longrightarrow> 0 \<le> reconcile i N \<and> reconcile i N < N) \<and> (N = 0 \<longrightarrow> reconcile i N = 0)"
  by (auto simp: reconcile_def)

lemma updateProps_index:
  "activeTabIndex (state (updateProps nextProps w)) =
   reconcile (activeTabIndex (state w))
     (int (length (records_of (p_record nextProps) (p_name (props w)))))"
  by (simp add: updateProps_def onWillUpdateProps_def reconcile_def Let_def)

lemma kraRecords_updateProps:
  "kraRecords (updateProps nextProps w) = records_of (p_record nextProps) (p_name nextProps)"
  by (simp add: updateProps_def kraRecords_def)

lemma tab_index_ok_active: "activeKRA w = Some kra \<Longrightarrow> tab_index_ok w"
  by (auto simp: tab_index_ok_def Let_def dest!: activeKRA_nth)

lemma onDeleteKRA_Resolves:
  assumes "\<not> p_readonly (props w)" "activeKRA w = Some kra" "\<not> isDeleting (state w)"
    "isTemplateMode w"
  shows "\<exists>w'. onDeleteKRA Resolves w = Inr w'
           \<and> kraRecords w' = take (nat (activeTabIndex (state w))) (kraRecords w)
                               @ drop (Suc (nat (activeTabIndex (state w)))) (kraRecords w)
           \<and> activeTabIndex (state w') =
               reconcile (activeTabIndex (state w)) (int (length (kraRecords w')))
           \<and> \<not> isDeleting (state w')"
proof -
  let ?i = "nat (activeTabIndex (state w))"
  let ?w1 = "set_isDeleting True w"
  define ys where "ys = take ?i (kraRecords w) @ drop (Suc ?i) (kraRecords w)"
  define wa where
    "wa = resolved (Acc_kraList_delete ?i) (acc_delete_kra (p_name (props w)) ?i) ?w1"
  have d1: "data (p_record (props ?w1)) (p_name (props ?w1)) = Some (kraRecords w)"
    using activeKRA_data [OF assms(2)] by simp
  have n1: "p_name (props w) = p_name (props ?w1)"
    by simp
  have recs: "kraRecords wa = ys"
    unfolding acc_delete_kra_def wa_def ys_def
    by (subst n1) (rule kraRecords_resolved_map_records [OF d1])
  have st: "activeTabIndex (state wa) = activeTabIndex (state w)" "isDeleting (state wa) = True"
    by (simp_all add: wa_def)
  have "onDeleteKRA Resolves w = Inr (set_isDeleting False
          (let newLength = int (length (kraRecords wa)) in
           if activeTabIndex (state wa) \<ge> newLength \<and> newLength > 0
           then set_activeTabIndex (newLength - 1) wa
           else if newLength = 0 then set_activeTabIndex 0 wa else wa))"
    using assms by (simp add: onDeleteKRA_def onDeleteKRA_begin_def onDeleteKRA_try_def call_accessor_Resolves Let_def wa_def)
  then show ?thesis
    unfolding ys_def [symmetric]
    by (simp add: Let_def recs st reconcile_def)
qed

lemma onDeleteKRA_Rejects:
  assumes "\<not> p_readonly (props w)" "activeKRA w = Some kra" "\<not> isDeleting (state w)"
    "isTemplateMode w"
  shows "onDeleteKRA Rejects w =
         Inr (w\<lparr>trace := trace w @ [Console_error ''Error deleting KRA:'']\<rparr>)"
  using assms
  by (simp add: onDeleteKRA_def onDeleteKRA_begin_def onDeleteKRA_try_def call_accessor_def Let_def set_isDeleting_def)

lemma createKRA_Resolves:
  "\<exists>w'. createKRA Resolves kraName' w = Inr w'
     \<and> length (kraRecords w') = Suc (length (kraRecords w))
     \<and> activeTabIndex (state w') = int (length (kraRecords w))"
  by (simp add: createKRA_def call_accessor_Resolves Let_def kraRecords_resolved
      records_of_acc_create_kra kraRecords_def [symmetric])

text \<open>
  Claim C2. The active index is valid when it is an index of the KRA collection, or 0
  when the collection is empty. When the props are replaced (the widget keeps its field
  name), the new active index is the reconciliation of the old one against the size \<open>N\<close>
  of the new collection: an index at least \<open>N\<close> is clamped to \<open>N - 1\<close> when \<open>N\<close> is
  positive, the index is reset to 0 when \<open>N\<close> is 0, and otherwise it is unchanged; so from
  a valid index the index is valid again, \<open>0 \<le> i < N\<close> when \<open>N > 0\<close> and \<open>i = 0\<close> when
  \<open>N = 0\<close>. When \<^verbatim>\<open>onDeleteKRA\<close> deletes (template mode, not read-only, an active KRA, not
  already deleting) and the Accessor call resolves, the active row is removed, the index
  is reconciled against the new size in the same way and is valid; when the call
  rejects, collection and index are unchanged and the index is still valid. After a KRA
  is created the index is valid as well.
\<close>

theorem reconciliation:
  "(p_name nextProps = p_name (props w) \<longrightarrow>
      activeTabIndex (state (updateProps nextProps w)) =
        reconcile (activeTabIndex (state w)) (int (length (kraRecords (updateProps nextProps w))))
      \<and> (tab_index_ok w \<longrightarrow> tab_index_ok (updateProps nextProps w)))
   \<and> (\<not> p_readonly (props w) \<and> activeKRA w \<noteq> None \<and> \<not> isDeleting (state w)
        \<and> isTemplateMode w \<longrightarrow>
        tab_index_ok w
      \<and> (\<exists>w'. onDeleteKRA Resolves w = Inr w'
           \<and> kraRecords w' = take (nat (activeTabIndex (state w))) (kraRecords w)
                               @ drop (Suc (nat (activeTabIndex (state w)))) (kraRecords w)
           \<and> activeTabIndex (state w') =
               reconcile (activeTabIndex (state w)) (int (length (kraRecords w')))
           \<and> tab_index_ok w')
      \<and> (\<exists>w'. onDeleteKRA Rejects w = Inr w' \<and> kraRecords w' = kraRecords w
           \<and> activeTabIndex (state w') = activeTabIndex (state w) \<and> tab_index_ok w'))
   \<and> (\<exists>w'. createKRA Resolves kraName' w = Inr w' \<and> tab_index_ok w')"
proof -
  have A: "activeTabIndex (state (updateProps nextProps w)) =
        reconcile (activeTabIndex (state w)) (int (length (kraRecords (updateProps nextProps w))))
      \<and> (tab_index_ok w \<longrightarrow> tab_index_ok (updateProps nextProps w))"
    if n: "p_name nextProps = p_name (props w)"
  proof -
    have nonneg: "0 \<le> activeTabIndex (state w)" if "tab_index_ok w"
      using that by (cases "kraRecords w = []") (simp_all add: tab_index_ok_def Let_def)
    show ?thesis
      using n nonneg reconcile_range [of "activeTabIndex (state w)"
        "int (length (records_of (p_record nextProps) (p_name (props w))))"]
      by (simp add: updateProps_index kraRecords_updateProps tab_index_ok_def [of "updateProps _ _"]
          Let_def)
  qed
  have B: "tab_index_ok w
      \<and> (\<exists>w'. onDeleteKRA Resolves w = Inr w'
           \<and> kraRecords w' = take (nat (activeTabIndex (state w))) (kraRecords w)
                               @ drop (Suc (nat (activeTabIndex (state w)))) (kraRecords w)
           \<and> activeTabIndex (state w') =
               reconcile (activeTabIndex (state w)) (int (length (kraRecords w')))
           \<and> tab_index_ok w')
      \<and> (\<exists>w'. onDeleteKRA Rejects w = Inr w' \<and> kraRecords w' = kraRecords w
           \<and> activeTabIndex (state w') = activeTabIndex (state w) \<and> tab_index_ok w')"
    if g: "\<not> p_readonly (props w)" "activeKRA w \<noteq> None" "\<not> isDeleting (state w)"
      "isTemplateMode w"
  proof -
    from g(2) obtain kra where k: "activeKRA w = Some kra" by blast
    from activeKRA_nth [OF k] have nonneg: "0 \<le> activeTabIndex (state w)" by simp
    from onDeleteKRA_Resolves [OF g(1) k g(3) g(4)] obtain w' where
      w': "onDeleteKRA Resolves w = Inr w'"
        "kraRecords w' = take (nat (activeTabIndex (state w))) (kraRecords w)
                               @ drop (Suc (nat (activeTabIndex (state w)))) (kraRecords w)"
        "activeTabIndex (state w') =
           reconcile (activeTabIndex (state w)) (int (length (kraRecords w')))"
      by blast
    have "tab_index_ok w'"
      using reconcile_range [OF nonneg, of "int (length (kraRecords w'))"] w'(3)
      by (simp add: tab_index_ok_def Let_def)
    with w' have 1: "\<exists>w'. onDeleteKRA Resolves w = Inr w'
           \<and> kraRecords w' = take (nat (activeTabIndex (state w))) (kraRecords w)
                               @ drop (Suc (nat (activeTabIndex (state w)))) (kraRecords w)
           \<and> activeTabIndex (state w') =
               reconcile (activeTabIndex (state w)) (int (length (kraRecords w')))
           \<and> tab_index_ok w'"
      by blast
    have "tab_index_ok (w\<lparr>trace := trace w @ [Console_error ''Error deleting KRA:'']\<rparr>)"
      using tab_index_ok_active [OF k] by (simp add: tab_index_ok_def kraRecords_def)
    then have 2: "\<exists>w'. onDeleteKRA Rejects w = Inr w' \<and> kraRecords w' = kraRecords w
           \<and> activeTabIndex (state w') = activeTabIndex (state w) \<and> tab_index_ok w'"
      by (simp add: onDeleteKRA_Rejects [OF g(1) k g(3) g(4)] kraRecords_def)
    from tab_index_ok_active [OF k] 1 2 show ?thesis by (intro conjI)
  qed
  have C: "\<exists>w'. createKRA Resolves kraName' w = Inr w' \<and> tab_index_ok w'"
    using createKRA_Resolves [of kraName' w] by (auto simp: tab_index_ok_def Let_def)
  from A B C show ?thesis by blast
qed

text \<open>
  Witness of C2: with the last of three KRAs active, props with a single KRA clamp the
  index to 0; deleting the only KRA of a template leaves no KRA and the index 0; creating
  a KRA on a template with one KRA makes the index 1 of 2.
\<close>

theorem reconciliation_witness:
  "tab_index_ok ex_last_of_three
   \<and> activeTabIndex (state ex_last_of_three) = 2
   \<and> length (kraRecords (updateProps (props ex_template) ex_last_of_three)) = 1
   \<and> activeTabIndex (state (updateProps (props ex_template) ex_last_of_three)) = 0
   \<and> tab_index_ok (updateProps (props ex_template) ex_last_of_three)
   \<and> (\<exists>w'. onDeleteKRA Resolves ex_template = Inr w' \<and> kraRecords w' = []
         \<and> activeTabIndex (state w') = 0 \<and> \<not> hasKras w' \<and> tab_index_ok w')
   \<and> (\<exists>w'. createKRA Resolves ''Ops'' ex_template = Inr w' \<and> tab_index_ok w')"
proof -
  have l: "p_name (props ex_template) = p_name (props ex_last_of_three)"
    "activeTabIndex (state ex_last_of_three) = 2"
    "kraRecords (updateProps (props ex_template) ex_last_of_three) = [ex_kra]"
    by (simp_all add: ex_last_of_three_def ex_three_props_def ex_template_def ex_props_def
        setActiveTab_def KraTabs_setup_def set_activeTabIndex_def kraRecords_updateProps
        records_of_def)
  have l3: "kraRecords ex_last_of_three = [ex_kra, ex_kra, ex_kra]"
    by (simp add: ex_last_of_three_def ex_three_props_def ex_props_def setActiveTab_def
        KraTabs_setup_def records_of_def kraRecords_def)
  have ok: "tab_index_ok ex_last_of_three"
    by (simp add: tab_index_ok_def l l3)
  have a: "activeTabIndex (state (updateProps (props ex_template) ex_last_of_three)) = 0
           \<and> tab_index_ok (updateProps (props ex_template) ex_last_of_three)"
    using reconciliation [of "props ex_template" ex_last_of_three] l ok
    by (simp add: reconcile_def)
  have t: "isTemplateMode ex_template" "activeKRA ex_template \<noteq> None"
    by (simp_all add: isTemplateMode_def ex_template_facts)
  have b: "\<exists>w'. onDeleteKRA Resolves ex_template = Inr w' \<and> kraRecords w' = []
         \<and> activeTabIndex (state w') = 0 \<and> \<not> hasKras w' \<and> tab_index_ok w'"
    using reconciliation [of _ ex_template] t ex_template_facts(1,3)
    by (auto simp: ex_template_facts(5,6) reconcile_def hasKras_def)
  have c: "\<exists>w'. createKRA Resolves ''Ops'' ex_template = Inr w' \<and> tab_index_ok w'"
    using reconciliation [of _ ex_template "''Ops''"] by blast
  from ok l(2) l(3) a b c show ?thesis by simp
qed

section \<open>Guards of the mutation engine\<close>

lemma onDuplicateKPI_Resolves:
  assumes "\<not> p_readonly (props w)" "activeKRA w \<noteq> None"
  shows "\<exists>w'. onDuplicateKPI Resolves kpi w = Inr w' \<and> w' \<noteq> w
           \<and> trace w' = trace w @
               [Acc_kra_update (nat (activeTabIndex (state w))) (duplicate_vals kpi)]"
proof -
  let ?ev = "Acc_kra_update (nat (activeTabIndex (state w))) (duplicate_vals kpi)"
  let ?w = "resolved ?ev
              (acc_create_kpi (p_name (props w)) (nat (activeTabIndex (state w)))
                 (duplicate_vals kpi)) w"
  have r: "onDuplicateKPI Resolves kpi w = Inr ?w"
    using assms by (auto simp: onDuplicateKPI_def call_accessor_Resolves Let_def)
  have t: "trace ?w = trace w @ [?ev]"
    by (simp add: resolved_def)
  then have "trace ?w \<noteq> trace w" by simp
  then have "?w \<noteq> w" by metis
  with r t show ?thesis by blast
qed

text \<open>
  Claim C8, as stated, fails for duplicate KPI: \<^verbatim>\<open>onDuplicateKPI\<close> has no mode check. In
  employee mode, on a widget that is not read-only and has an active KRA, it calls the
  Accessor and a third row appears in the active KRA.
\<close>

theorem guards_counterexample:
  "mode (props ex_employee) = ''employee''
   \<and> \<not> p_readonly (props ex_employee)
   \<and> onDuplicateKPI Resolves ex_kpi1 ex_employee = Inr ex_duplicated
   \<and> ex_duplicated \<noteq> ex_employee
   \<and> trace ex_duplicated = [Acc_kra_update 0 (duplicate_vals ex_kpi1)]
   \<and> length (activeKPIs ex_employee) = 2
   \<and> length (activeKPIs ex_duplicated) = 3"
proof -
  have n: "p_name (props ex_employee) = ''kra_ids''" "trace ex_employee = []"
    by (simp_all add: ex_employee_def ex_props_def KraTabs_setup_def)
  have r: "onDuplicateKPI Resolves ex_kpi1 ex_employee = Inr ex_duplicated"
    by (simp add: onDuplicateKPI_def call_accessor_Resolves Let_def ex_employee_facts n
        ex_duplicated_def)
  have t: "trace ex_duplicated = [Acc_kra_update 0 (duplicate_vals ex_kpi1)]"
    by (simp add: ex_duplicated_def resolved_def n)
  then have "trace ex_duplicated \<noteq> trace ex_employee"
    by (simp add: n)
  then have d: "ex_duplicated \<noteq> ex_employee" by metis
  have "activeKPIs ex_duplicated = kpi_ids ex_kra @
          [\<lparr>kpi_id = next_id (p_record (props ex_employee)), isNew = True,
            kpi_data = duplicate_vals ex_kpi1\<rparr>]"
    using activeKPIs_resolved_create [OF ex_employee_facts(2)]
    by (simp add: ex_employee_facts(6) n ex_duplicated_def)
  then have l: "length (activeKPIs ex_duplicated) = 3"
    by (simp add: ex_rows(1))
  have l0: "length (activeKPIs ex_employee) = 2"
    by (simp add: activeKPIs_def ex_employee_facts(2) ex_rows(1))
  from r d t l l0 show ?thesis by (simp add: ex_employee_facts(1,4))
qed

text \<open>
  Claim C8, amended. When the widget is read-only, each mutation handler (add KRA, which
  opens the creation dialog, delete KRA, add KPI, duplicate KPI, delete KPI, restore KPI,
  field change, checkbox change) returns immediately: the widget, its record and its
  trace of Accessor calls are unchanged, whatever the Accessor would answer. When the mode is not
  \<^verbatim>\<open>template\<close>, add KRA, delete KRA and add KPI are such no-ops as well. Duplicate KPI is
  not gated by the mode: in any mode, on a widget that is not read-only and has an active
  KRA, it issues the Accessor call that creates the row.
\<close>

theorem guards:
  "(p_readonly (props w) \<longrightarrow>
      onAddKRA w = Inr w \<and> onDeleteKRA out w = Inr w \<and> onAddKPI out w = Inr w
      \<and> onDuplicateKPI out kpi w = Inr w \<and> onDeleteKPI out kpi w = Inr w
      \<and> onRestoreKPI out kpi w = Inr w
      \<and> onKPIFieldChange parseFloat out kpi fieldName input w = Inr w
      \<and> onKPICheckboxChange out kpi checked w = Inr w)
   \<and> (mode (props w) \<noteq> ''template'' \<longrightarrow>
      onAddKRA w = Inr w \<and> onDeleteKRA out w = Inr w \<and> onAddKPI out w = Inr w)
   \<and> (\<not> p_readonly (props w) \<and> activeKRA w \<noteq> None \<longrightarrow>
      (\<exists>w'. onDuplicateKPI Resolves kpi w = Inr w' \<and> w' \<noteq> w
         \<and> trace w' = trace w @
             [Acc_kra_update (nat (activeTabIndex (state w))) (duplicate_vals kpi)]))"
proof -
  have 1: "p_readonly (props w) \<longrightarrow>
      onAddKRA w = Inr w \<and> onDeleteKRA out w = Inr w \<and> onAddKPI out w = Inr w
      \<and> onDuplicateKPI out kpi w = Inr w \<and> onDeleteKPI out kpi w = Inr w
      \<and> onRestoreKPI out kpi w = Inr w
      \<and> onKPIFieldChange parseFloat out kpi fieldName input w = Inr w
      \<and> onKPICheckboxChange out kpi checked w = Inr w"
    by (simp add: onAddKRA_def onDeleteKRA_def onDeleteKRA_begin_def onDeleteKRA_try_def onAddKPI_def onDuplicateKPI_def onDeleteKPI_def onDeleteKPI_begin_def onDeleteKPI_try_def
        onRestoreKPI_def onKPIFieldChange_def onKPICheckboxChange_def)
  have 2: "mode (props w) \<noteq> ''template'' \<longrightarrow>
      onAddKRA w = Inr w \<and> onDeleteKRA out w = Inr w \<and> onAddKPI out w = Inr w"
    by (simp add: onAddKRA_def onDeleteKRA_def onDeleteKRA_begin_def onDeleteKRA_try_def onAddKPI_def isTemplateMode_def)
  from 1 2 onDuplicateKPI_Resolves [of w kpi] show ?thesis by blast
qed

text \<open>
  Witness of the amended C8: on a read-only template widget deleting a KPI and adding a
  KRA change nothing; in employee mode adding a KPI and deleting the KRA change nothing,
  and duplicating a KPI issues one Accessor call.
\<close>

theorem guards_witness:
  "p_readonly (props ex_readonly)
   \<and> onDeleteKPI Resolves ex_kpi1 ex_readonly = Inr ex_readonly
   \<and> onAddKRA ex_readonly = Inr ex_readonly
   \<and> mode (props ex_employee) \<noteq> ''template''
   \<and> onAddKPI Resolves ex_employee = Inr ex_employee
   \<and> onDeleteKRA Resolves ex_employee = Inr ex_employee
   \<and> (\<exists>w'. onDuplicateKPI Resolves ex_kpi1 ex_employee = Inr w'
         \<and> trace w' = [Acc_kra_update 0 (duplicate_vals ex_kpi1)])"
proof -
  have ro: "p_readonly (props ex_readonly)"
    by (simp add: ex_readonly_def)
  have a: "onDeleteKPI Resolves ex_kpi1 ex_readonly = Inr ex_readonly
           \<and> onAddKRA ex_readonly = Inr ex_readonly"
    using guards [of ex_readonly Resolves ex_kpi1] ro by simp
  have m: "mode (props ex_employee) \<noteq> ''template''"
    by (simp add: ex_employee_facts(4))
  have b: "onAddKPI Resolves ex_employee = Inr ex_employee
           \<and> onDeleteKRA Resolves ex_employee = Inr ex_employee"
    using guards [of ex_employee Resolves] m by simp
  have t: "trace ex_employee = []"
    by (simp add: ex_employee_def KraTabs_setup_def)
  have k: "activeKRA ex_employee \<noteq> None"
    by (simp add: ex_employee_facts(2))
  have c: "\<exists>w'. onDuplicateKPI Resolves ex_kpi1 ex_employee = Inr w'
         \<and> trace w' = [Acc_kra_update 0 (duplicate_vals ex_kpi1)]"
    using guards [of ex_employee _ ex_kpi1] t k ex_employee_facts(1)
    by (auto simp: ex_employee_facts(6))
  from ro a m b c show ?thesis by simp
qed

section \<open>Deletions and the busy flag\<close>

lemma onDeleteKRA_Inr:
  "\<exists>w'. onDeleteKRA out w = Inr w' \<and> (\<not> isDeleting (state w) \<longrightarrow> \<not> isDeleting (state w'))"
  by (simp add: onDeleteKRA_def onDeleteKRA_begin_def onDeleteKRA_try_def Let_def)

lemma onDeleteKPI_Inr:
  "\<exists>w'. onDeleteKPI out kpi w = Inr w' \<and> (\<not> isDeleting (state w) \<longrightarrow> \<not> isDeleting (state w'))"
  by (simp add: onDeleteKPI_def onDeleteKPI_begin_def onDeleteKPI_try_def Let_def)

lemma onDeleteKPI_Rejects:
  assumes "\<not> p_readonly (props w)" "activeKRA w \<noteq> None" "\<not> isDeleting (state w)"
    "mode (props w) = ''template'' \<or> mode (props w) = ''employee''"
  shows "onDeleteKPI Rejects kpi w =
         Inr (w\<lparr>trace := trace w @ [Console_error ''Error deleting KPI:'']\<rparr>)"
  using assms
  by (auto simp: onDeleteKPI_def onDeleteKPI_begin_def onDeleteKPI_try_def call_accessor_def Let_def set_isDeleting_def isSupervisorMode_def
      isTemplateMode_def isEmployeeMode_def kpiList_delete_def kpiRecord_update_def)

lemma onDeleteKRA_try_clears: "\<not> isDeleting (state (onDeleteKRA_try out w1))"
  by (simp add: onDeleteKRA_try_def Let_def)

lemma onDeleteKPI_try_clears: "\<not> isDeleting (state (onDeleteKPI_try out kpi w1))"
  by (simp add: onDeleteKPI_try_def Let_def)

lemma onDeleteKRA_try_trace:
  "trace (onDeleteKRA_try Resolves w1) =
   trace w1 @ [Acc_kraList_delete (nat (activeTabIndex (state w1)))]"
  by (simp add: onDeleteKRA_try_def call_accessor_Resolves Let_def resolved_def
      set_isDeleting_def set_activeTabIndex_def)

lemma onDeleteKPI_try_trace:
  "trace (onDeleteKPI_try Resolves kpi w1) =
   trace w1 @
     (if isTemplateMode w1
         \<or> isEmployeeMode w1 \<and> (isNew kpi \<or> is_clone (kpi_data kpi) = Some True)
      then [Acc_kpiList_delete (nat (activeTabIndex (state w1))) (kpi_id kpi)]
      else if isEmployeeMode w1
      then [Acc_kpi_update (kpi_id kpi) ''is_selected'' (JBool False)]
      else [])"
  by (simp add: onDeleteKPI_try_def kpiList_delete_def kpiRecord_update_def
      call_accessor_Resolves Let_def resolved_def set_isDeleting_def truthy_def)

lemma busy_widget_blocks:
  "onDeleteKRA out (set_isDeleting True w) = Inr (set_isDeleting True w)"
  "onDeleteKPI out kpi (set_isDeleting True w) = Inr (set_isDeleting True w)"
  by (simp_all add: onDeleteKRA_def onDeleteKRA_begin_def onDeleteKPI_def onDeleteKPI_begin_def)

text \<open>
  Claim C9. A deletion that passes its guards raises \<^verbatim>\<open>isDeleting\<close> before it calls the
  Accessor: the widget during the call is the widget with the flag set, and on that
  widget \<^verbatim>\<open>onDeleteKRA\<close> and \<^verbatim>\<open>onDeleteKPI\<close> return the widget unchanged, as they do on
  every widget whose flag is set. The \<^verbatim>\<open>try\<close> statement that follows issues the Accessor
  call of the deletion and ends with the flag cleared, whatever the widget and whatever
  the Accessor answers. When the call rejects, the error is written to the console and
  not rethrown (the result is never an error), and nothing else changes: the widget is as
  before the deletion, with \<^verbatim>\<open>isDeleting\<close> false.
\<close>

theorem deletion_busy_flag:
  "(isDeleting (state w) \<longrightarrow> onDeleteKRA out w = Inr w \<and> onDeleteKPI out kpi w = Inr w)
   \<and> (\<exists>w'. onDeleteKRA out w = Inr w'
         \<and> (\<not> isDeleting (state w) \<longrightarrow> \<not> isDeleting (state w')))
   \<and> (\<exists>w'. onDeleteKPI out kpi w = Inr w'
         \<and> (\<not> isDeleting (state w) \<longrightarrow> \<not> isDeleting (state w')))
   \<and> (\<not> p_readonly (props w) \<and> activeKRA w \<noteq> None \<and> \<not> isDeleting (state w)
        \<and> mode (props w) = ''template'' \<longrightarrow>
        onDeleteKRA Rejects w =
          Inr (w\<lparr>trace := trace w @ [Console_error ''Error deleting KRA:'']\<rparr>))
   \<and> (\<not> p_readonly (props w) \<and> activeKRA w \<noteq> None \<and> \<not> isDeleting (state w)
        \<and> (mode (props w) = ''template'' \<or> mode (props w) = ''employee'') \<longrightarrow>
        onDeleteKPI Rejects kpi w =
          Inr (w\<lparr>trace := trace w @ [Console_error ''Error deleting KPI:'']\<rparr>))
   \<and> (\<not> p_readonly (props w) \<and> activeKRA w \<noteq> None \<and> \<not> isDeleting (state w)
        \<and> mode (props w) = ''template'' \<longrightarrow>
        onDeleteKRA_begin w = Some (set_isDeleting True w)
        \<and> isDeleting (state (set_isDeleting True w))
        \<and> onDeleteKRA out w = Inr (onDeleteKRA_try out (set_isDeleting True w))
        \<and> trace (onDeleteKRA_try Resolves (set_isDeleting True w)) =
            trace w @ [Acc_kraList_delete (nat (activeTabIndex (state w)))])
   \<and> (\<not> p_readonly (props w) \<and> activeKRA w \<noteq> None \<and> \<not> isDeleting (state w)
        \<and> mode (props w) \<noteq> ''supervisor'' \<longrightarrow>
        onDeleteKPI_begin w = Some (set_isDeleting True w)
        \<and> isDeleting (state (set_isDeleting True w))
        \<and> onDeleteKPI out kpi w = Inr (onDeleteKPI_try out kpi (set_isDeleting True w))
        \<and> (mode (props w) = ''template'' \<longrightarrow>
             trace (onDeleteKPI_try Resolves kpi (set_isDeleting True w)) =
               trace w @ [Acc_kpiList_delete (nat (activeTabIndex (state w))) (kpi_id kpi)])
        \<and> (mode (props w) = ''employee'' \<longrightarrow>
             trace (onDeleteKPI_try Resolves kpi (set_isDeleting True w)) =
               trace w @
                 [if isNew kpi \<or> is_clone (kpi_data kpi) = Some True
                  then Acc_kpiList_delete (nat (activeTabIndex (state w))) (kpi_id kpi)
                  else Acc_kpi_update (kpi_id kpi) ''is_selected'' (JBool False)]))
   \<and> onDeleteKRA out' (set_isDeleting True w) = Inr (set_isDeleting True w)
   \<and> onDeleteKPI out' kpi' (set_isDeleting True w) = Inr (set_isDeleting True w)
   \<and> \<not> isDeleting (state (onDeleteKRA_try out w1))
   \<and> \<not> isDeleting (state (onDeleteKPI_try out kpi w1))"
proof -
  have 1: "isDeleting (state w) \<longrightarrow> onDeleteKRA out w = Inr w \<and> onDeleteKPI out kpi w = Inr w"
    by (simp add: onDeleteKRA_def onDeleteKRA_begin_def onDeleteKPI_def onDeleteKPI_begin_def)
  have 4: "\<not> p_readonly (props w) \<and> activeKRA w \<noteq> None \<and> \<not> isDeleting (state w)
        \<and> mode (props w) = ''template'' \<longrightarrow>
        onDeleteKRA Rejects w =
          Inr (w\<lparr>trace := trace w @ [Console_error ''Error deleting KRA:'']\<rparr>)"
    using onDeleteKRA_Rejects [of w] by (auto simp: isTemplateMode_def)
  have 5: "\<not> p_readonly (props w) \<and> activeKRA w \<noteq> None \<and> \<not> isDeleting (state w)
        \<and> (mode (props w) = ''template'' \<or> mode (props w) = ''employee'') \<longrightarrow>
        onDeleteKPI Rejects kpi w =
          Inr (w\<lparr>trace := trace w @ [Console_error ''Error deleting KPI:'']\<rparr>)"
    using onDeleteKPI_Rejects [of w kpi] by blast
  have 6: "\<not> p_readonly (props w) \<and> activeKRA w \<noteq> None \<and> \<not> isDeleting (state w)
        \<and> mode (props w) = ''template'' \<longrightarrow>
        onDeleteKRA_begin w = Some (set_isDeleting True w)
        \<and> isDeleting (state (set_isDeleting True w))
        \<and> onDeleteKRA out w = Inr (onDeleteKRA_try out (set_isDeleting True w))
        \<and> trace (onDeleteKRA_try Resolves (set_isDeleting True w)) =
            trace w @ [Acc_kraList_delete (nat (activeTabIndex (state w)))]"
    by (auto simp: onDeleteKRA_def onDeleteKRA_begin_def isTemplateMode_def onDeleteKRA_try_trace
        set_isDeleting_def)
  have 7: "\<not> p_readonly (props w) \<and> activeKRA w \<noteq> None \<and> \<not> isDeleting (state w)
        \<and> mode (props w) \<noteq> ''supervisor'' \<longrightarrow>
        onDeleteKPI_begin w = Some (set_isDeleting True w)
        \<and> isDeleting (state (set_isDeleting True w))
        \<and> onDeleteKPI out kpi w = Inr (onDeleteKPI_try out kpi (set_isDeleting True w))
        \<and> (mode (props w) = ''template'' \<longrightarrow>
             trace (onDeleteKPI_try Resolves kpi (set_isDeleting True w)) =
               trace w @ [Acc_kpiList_delete (nat (activeTabIndex (state w))) (kpi_id kpi)])
        \<and> (mode (props w) = ''employee'' \<longrightarrow>
             trace (onDeleteKPI_try Resolves kpi (set_isDeleting True w)) =
               trace w @
                 [if isNew kpi \<or> is_clone (kpi_data kpi) = Some True
                  then Acc_kpiList_delete (nat (activeTabIndex (state w))) (kpi_id kpi)
                  else Acc_kpi_update (kpi_id kpi) ''is_selected'' (JBool False)])"
    by (auto simp: onDeleteKPI_def onDeleteKPI_begin_def isSupervisorMode_def isTemplateMode_def
        isEmployeeMode_def onDeleteKPI_try_trace set_isDeleting_def)
  from 1 onDeleteKRA_Inr [of out w] onDeleteKPI_Inr [of out kpi w] 4 5 6 7
    busy_widget_blocks(1) [of out' w] busy_widget_blocks(2) [of out' kpi' w]
    onDeleteKRA_try_clears [of out w1] onDeleteKPI_try_clears [of out kpi w1]
  show ?thesis
    by (intro conjI)
qed

text \<open>
  Witness of C9: a KRA deletion on a template raises the flag, and on the widget with
  the flag raised both deletions change nothing; when the Accessor resolves, the trace
  holds the delete call; when it rejects, both deletions end with the error on the
  console and the flag clear.
\<close>

theorem deletion_busy_flag_witness:
  "onDeleteKRA_begin ex_template = Some (set_isDeleting True ex_template)
   \<and> isDeleting (state (set_isDeleting True ex_template))
   \<and> onDeleteKRA Resolves (set_isDeleting True ex_template) = Inr (set_isDeleting True ex_template)
   \<and> onDeleteKPI Resolves ex_kpi1 (set_isDeleting True ex_template)
       = Inr (set_isDeleting True ex_template)
   \<and> trace (onDeleteKRA_try Resolves (set_isDeleting True ex_template)) = [Acc_kraList_delete 0]
   \<and> \<not> isDeleting (state (onDeleteKRA_try Resolves (set_isDeleting True ex_template)))
   \<and> onDeleteKRA Rejects ex_template
       = Inr (ex_template\<lparr>trace := [Console_error ''Error deleting KRA:'']\<rparr>)
   \<and> onDeleteKPI Rejects ex_kpi1 ex_employee
       = Inr (ex_employee\<lparr>trace := [Console_error ''Error deleting KPI:'']\<rparr>)
   \<and> trace (onDeleteKPI_try Resolves ex_kpi1 (set_isDeleting True ex_employee))
       = [Acc_kpi_update 1 ''is_selected'' (JBool False)]
   \<and> \<not> isDeleting (state (ex_template\<lparr>trace := [Console_error ''Error deleting KRA:'']\<rparr>))"
proof -
  have t: "trace ex_template = []" "trace ex_employee = []"
    by (simp_all add: ex_template_def ex_employee_def KraTabs_setup_def)
  have k: "activeKRA ex_template \<noteq> None" "activeKRA ex_employee \<noteq> None"
    by (simp_all add: ex_template_facts(2) ex_employee_facts(2))
  have m: "mode (props ex_employee) \<noteq> ''supervisor''"
    by (simp add: ex_employee_facts(4))
  have a: "onDeleteKRA_begin ex_template = Some (set_isDeleting True ex_template)
           \<and> isDeleting (state (set_isDeleting True ex_template))
           \<and> onDeleteKRA Resolves (set_isDeleting True ex_template)
               = Inr (set_isDeleting True ex_template)
           \<and> onDeleteKPI Resolves ex_kpi1 (set_isDeleting True ex_template)
               = Inr (set_isDeleting True ex_template)
           \<and> trace (onDeleteKRA_try Resolves (set_isDeleting True ex_template))
               = [Acc_kraList_delete 0]
           \<and> \<not> isDeleting (state (onDeleteKRA_try Resolves (set_isDeleting True ex_template)))
           \<and> onDeleteKRA Rejects ex_template
               = Inr (ex_template\<lparr>trace := [Console_error ''Error deleting KRA:'']\<rparr>)"
    using deletion_busy_flag [of ex_template Resolves ex_kpi1 Resolves ex_kpi1
        "set_isDeleting True ex_template"] t k ex_template_facts(1,3,4,6)
    by simp
  have c: "onDeleteKPI Rejects ex_kpi1 ex_employee
             = Inr (ex_employee\<lparr>trace := [Console_error ''Error deleting KPI:'']\<rparr>)
           \<and> trace (onDeleteKPI_try Resolves ex_kpi1 (set_isDeleting True ex_employee))
               = [Acc_kpi_update 1 ''is_selected'' (JBool False)]"
    using deletion_busy_flag [of ex_employee Rejects ex_kpi1 Rejects ex_kpi1 ex_employee]
      t k m ex_employee_facts(1,3,4,6)
    by (simp add: ex_rows)
  have d: "\<not> isDeleting (state (ex_template\<lparr>trace := [Console_error ''Error deleting KRA:'']\<rparr>))"
    using ex_template_facts(3) by simp
  from a c d show ?thesis by simp
qed

end
